theory Spec2Isabelle
  imports Main "HOL-Library.Word" "HOL-Library.List_Lexorder"
begin

chapter \<open>ProcessGroupGloo: the embedding\<close>

section \<open>Errors\<close>

text \<open>
  The exceptions the source throws, as values. \<open>std::invalid_argument\<close> comes from the
  \<open>invalidArgument\<close> lambdas of the dispatch functions, \<open>std::runtime_error\<close> from plain
  \<open>throw\<close> statements and from the transport, \<open>c10::Error\<close> from \<open>AT_ASSERT\<close>,
  \<open>AT_CHECK\<close> and the tensor library, and \<open>std::length_error\<close> from a
  \<open>std::vector::resize\<close> beyond \<open>max_size\<close>.
\<close>

datatype error =
    InvalidArgument string
  | RuntimeError string
  | C10Error string
  | LengthError string

section \<open>Dense tensors as the dispatch layer sees them\<close>

text \<open>
  What the dispatch functions and the point-to-point calls read of a tensor: device type,
  layout, scalar type, shape, contiguity and the address of its storage. The enumerations
  are the tensor library's; of its device types and layouts only the ones the source names
  and one more of each are listed (\<open>kHIP\<close>, \<open>kMkldnn\<close>), standing for every value that the
  switches of the source send to \<open>default\<close>. The scalar types carry the prefix \<open>k\<close> of the
  library's constants (\<open>at::kLong\<close>).
\<close>

datatype device_type = kCPU | kCUDA | kHIP

datatype layout = kStrided | kSparse | kMkldnn

datatype scalar_type =
  kByte | kChar | kShort | kInt | kLong | kHalf | kFloat | kDouble | kBool

record tensor =
  t_device :: device_type
  t_layout :: layout
  t_dtype :: scalar_type
  t_sizes :: "int list"
  t_contiguous :: bool
  t_data_ptr :: nat

definition is_sparse :: "tensor \<Rightarrow> bool" where
  "is_sparse t = (t_layout t = kSparse)"

definition numel :: "tensor \<Rightarrow> int" where
  "numel t = prod_list (t_sizes t)"

text \<open>Modelled from the spec: the tensor library's \<open>element_size()\<close>, bytes per element.\<close>

fun element_size_of :: "scalar_type \<Rightarrow> int" where
  "element_size_of kByte = 1"
| "element_size_of kChar = 1"
| "element_size_of kShort = 2"
| "element_size_of kInt = 4"
| "element_size_of kLong = 8"
| "element_size_of kHalf = 2"
| "element_size_of kFloat = 4"
| "element_size_of kDouble = 8"
| "element_size_of kBool = 1"

definition element_size :: "tensor \<Rightarrow> int" where
  "element_size t = element_size_of (t_dtype t)"

text \<open>\<open>tensor.type()\<close>: backend (device type and layout) and scalar type.\<close>

definition type_of :: "tensor \<Rightarrow> device_type \<times> layout \<times> scalar_type" where
  "type_of t = (t_device t, t_layout t, t_dtype t)"

section \<open>The process group\<close>

text \<open>
  A work item of the queue: which class it is, the context it was given (an index into
  \<open>contexts_\<close>) and its tag. The tensors a work item captures are left out of the queue
  entry; the \<open>run()\<close> methods are modelled on their own below.
\<close>

datatype work_kind =
    AsyncBroadcastWork | AsyncBroadcastCUDAWork
  | AsyncAllreduceWork | AsyncAllreduceCoalescedWork | AsyncSparseAllreduceWork
  | AsyncAllreduceCUDAWork | AsyncSparseAllreduceCUDAWork
  | AsyncReduceWork | AsyncReduceCUDAWork
  | AsyncAllgatherWork | AsyncAllgatherCUDAWork
  | AsyncGatherWork | AsyncGatherCUDAWork
  | AsyncScatterWork | AsyncScatterCUDAWork
  | AsyncBarrierWork

record work =
  work_kind :: work_kind
  work_context :: nat
  work_tag :: "32 word"

text \<open>
  Calls into the transport's unbound buffers, in the order the process group makes them:
  \<open>createUnboundBuffer(ptr, size)\<close> on a context, \<open>send(dstRank, tag)\<close>,
  \<open>recv(srcRank, tag)\<close> and \<open>recv(srcRanks, tag)\<close>.
\<close>

datatype transport_call =
    CreateUnboundBuffer nat nat int
  | BufferSend int "32 word"
  | BufferRecv int "32 word"
  | BufferRecvAny "int list" "32 word"

text \<open>
  The members of \<open>ProcessGroupGloo\<close> (the source's names end in an underscore, which an
  Isabelle name cannot): \<open>rank_\<close>, \<open>size_\<close>, the number of \<open>contexts_\<close>, \<open>stop_\<close>,
  \<open>collectiveCounter_\<close> (a \<open>uint32_t\<close>: \<open>nextTag\<close> returns \<open>uint32_t\<close>), \<open>workQueue_\<close>,
  \<open>workInProgress_\<close>, and the log of the calls made into the transport's buffers.
\<close>

record process_group =
  pg_rank :: int
  pg_size :: int
  pg_contexts :: nat
  stop :: bool
  collectiveCounter :: "32 word"
  workQueue :: "work list"
  workInProgress :: "work option list"
  transport :: "transport_call list"

text \<open>
  The constructor, for \<open>devices\<close> devices and \<open>threads\<close> worker threads. The rendezvous
  (\<open>connectFullMesh\<close>) is the transport's and is taken to succeed.
\<close>

definition ProcessGroupGloo :: "int \<Rightarrow> int \<Rightarrow> nat \<Rightarrow> nat \<Rightarrow> error + process_group" where
  "ProcessGroupGloo rank sz devices threads =
     (if devices = 0 then Inl (RuntimeError ''No device(s) specified'')
      else Inr \<lparr>pg_rank = rank, pg_size = sz, pg_contexts = devices, stop = False,
                collectiveCounter = 0, workQueue = [],
                workInProgress = replicate threads None, transport = []\<rparr>)"

text \<open>\<open>nextTag\<close>: \<open>return collectiveCounter_++\<close>, on 32 bits.\<close>

definition nextTag :: "process_group \<Rightarrow> 32 word \<times> process_group" where
  "nextTag pg = (collectiveCounter pg, pg\<lparr>collectiveCounter := collectiveCounter pg + 1\<rparr>)"

text \<open>\<open>getContext\<close>: \<open>contexts_[tag % contexts_.size()]\<close>, as the index.\<close>

definition getContext :: "process_group \<Rightarrow> 32 word \<Rightarrow> nat" where
  "getContext pg tag = unat tag mod pg_contexts pg"

definition enqueue :: "work \<Rightarrow> process_group \<Rightarrow> process_group" where
  "enqueue w pg = pg\<lparr>workQueue := workQueue pg @ [w]\<rparr>"

section \<open>Send, recv and recvAnysource\<close>

definition checkSingleTensor :: "tensor list \<Rightarrow> error + tensor" where
  "checkSingleTensor tensors =
     (if length tensors \<noteq> 1 then Inl (RuntimeError ''ProcessGroupGloo::send takes a single tensor'')
      else
        let t = tensors ! 0
        in if \<not> t_contiguous t then Inl (RuntimeError ''input tensor has to be contiguous'')
           else if is_sparse t then Inl (RuntimeError ''input tensor has to be dense'')
           else Inr t)"

text \<open>
  \<open>checkTag\<close>: the argument is an \<open>int32_t\<close>, read as signed; the cast to \<open>uint32_t\<close>
  keeps the bits.
\<close>

definition checkTag :: "32 word \<Rightarrow> error + 32 word" where
  "checkTag tag =
     (if sint tag < 0 then Inl (RuntimeError ''Tag must be >= 0'') else Inr tag)"

record send_work =
  sw_tensor :: tensor
  sw_completed :: bool
  sw_exception :: "error option"

text \<open>
  \<open>RecvWork\<close>: the captured tensor, \<open>srcRank_\<close>, and the \<open>completed_\<close> and \<open>exception_\<close>
  of the base class. The buffer is the transport's; what its \<open>waitRecv\<close> does is a
  parameter of \<open>RecvWork_wait\<close>.
\<close>

record recv_work =
  rw_tensor :: tensor
  srcRank :: int
  completed :: bool
  exception :: "error option"

definition SendWork :: "tensor \<Rightarrow> send_work" where
  "SendWork t = \<lparr>sw_tensor = t, sw_completed = False, sw_exception = None\<rparr>"

definition RecvWork :: "tensor \<Rightarrow> recv_work" where
  "RecvWork t = \<lparr>rw_tensor = t, srcRank = - 1, completed = False, exception = None\<rparr>"

definition sourceRank :: "recv_work \<Rightarrow> int" where
  "sourceRank w = srcRank w"

text \<open>
  \<open>RecvWork::wait\<close>. Modelled from the spec: the transport's \<open>waitRecv(&srcRank_)\<close>
  either throws, and then has not written through the pointer, or stores the rank of the
  actual sender; \<open>outcome\<close> is which of the two happened. The function returns what
  \<open>wait\<close> rethrows, if anything, and the work item after the call.
\<close>

definition RecvWork_wait :: "error + int \<Rightarrow> recv_work \<Rightarrow> error option \<times> recv_work" where
  "RecvWork_wait outcome w =
     (let w1 = (case outcome of
                  Inr r \<Rightarrow> w\<lparr>srcRank := r\<rparr>
                | Inl e \<Rightarrow> w\<lparr>exception := Some e\<rparr>);
          w2 = w1\<lparr>completed := True\<rparr>
      in (exception w2, w2))"

text \<open>A handle on which \<open>wait\<close> is called once per element of \<open>outcomes\<close>, in order.\<close>

definition waits :: "(error + int) list \<Rightarrow> recv_work \<Rightarrow> recv_work" where
  "waits outcomes w = fold (\<lambda>outcome w. snd (RecvWork_wait outcome w)) outcomes w"

definition send :: "process_group \<Rightarrow> tensor list \<Rightarrow> int \<Rightarrow> 32 word
    \<Rightarrow> (error + send_work) \<times> process_group" where
  "send pg tensors dstRank tag =
     (case checkSingleTensor tensors of
        Inl e \<Rightarrow> (Inl e, pg)
      | Inr t \<Rightarrow>
          (case checkTag tag of
             Inl e \<Rightarrow> (Inl e, pg)
           | Inr utag \<Rightarrow>
               let ptr = t_data_ptr t;
                   sz = numel t * element_size t;
                   ctx = getContext pg tag
               in (Inr (SendWork t),
                   pg\<lparr>transport := transport pg @
                        [CreateUnboundBuffer ctx ptr sz, BufferSend dstRank utag]\<rparr>)))"

definition recv :: "process_group \<Rightarrow> tensor list \<Rightarrow> int \<Rightarrow> 32 word
    \<Rightarrow> (error + recv_work) \<times> process_group" where
  "recv pg tensors src tag =
     (case checkSingleTensor tensors of
        Inl e \<Rightarrow> (Inl e, pg)
      | Inr t \<Rightarrow>
          (case checkTag tag of
             Inl e \<Rightarrow> (Inl e, pg)
           | Inr utag \<Rightarrow>
               let ptr = t_data_ptr t;
                   sz = numel t * element_size t;
                   ctx = getContext pg tag
               in (Inr (RecvWork t),
                   pg\<lparr>transport := transport pg @
                        [CreateUnboundBuffer ctx ptr sz, BufferRecv src utag]\<rparr>)))"

text \<open>
  The source ranks of \<open>recvAnysource\<close>: \<open>srcRanks.resize(size_)\<close> on an empty vector puts
  \<open>size_\<close> zeros, then the loop appends \<open>0, ..., size_ - 1\<close>. A negative \<open>size_\<close>, converted
  to \<open>size_t\<close>, is beyond what a vector holds.
\<close>

definition anysource_srcRanks :: "int \<Rightarrow> error + int list" where
  "anysource_srcRanks sz =
     (if sz < 0 then Inl (LengthError ''vector::resize'')
      else Inr (replicate (nat sz) 0 @ [0..sz - 1]))"

definition recvAnysource :: "process_group \<Rightarrow> tensor list \<Rightarrow> 32 word
    \<Rightarrow> (error + recv_work) \<times> process_group" where
  "recvAnysource pg tensors tag =
     (case checkSingleTensor tensors of
        Inl e \<Rightarrow> (Inl e, pg)
      | Inr t \<Rightarrow>
          (case checkTag tag of
             Inl e \<Rightarrow> (Inl e, pg)
           | Inr utag \<Rightarrow>
               let ptr = t_data_ptr t;
                   sz = numel t * element_size t;
                   ctx = getContext pg tag;
                   pg1 = pg\<lparr>transport := transport pg @ [CreateUnboundBuffer ctx ptr sz]\<rparr>
               in (case anysource_srcRanks (pg_size pg) of
                     Inl e \<Rightarrow> (Inl e, pg1)
                   | Inr srcRanks \<Rightarrow>
                       (Inr (RecvWork t),
                        pg1\<lparr>transport := transport pg1 @ [BufferRecvAny srcRanks utag]\<rparr>))))"

text \<open>A contiguous dense CPU tensor of four longs, and a group of four ranks.\<close>

definition example_dense :: tensor where
  "example_dense =
     \<lparr>t_device = kCPU, t_layout = kStrided, t_dtype = kLong, t_sizes = [4],
      t_contiguous = True, t_data_ptr = 4096\<rparr>"

definition example_group :: process_group where
  "example_group =
     \<lparr>pg_rank = 0, pg_size = 4, pg_contexts = 1, stop = False, collectiveCounter = 0,
      workQueue = [], workInProgress = [None, None], transport = []\<rparr>"

section \<open>Argument checks\<close>

text \<open>
  Modelled from the spec: the shared argument checks of \<open>Utils.hpp\<close>, which is not among
  the sources (non-empty, matching dtype and shape, dense, single-element, valid root rank
  and root tensor). Each check calls the \<open>invalidArgument\<close> lambda it is given with a
  message, or returns; here it returns the message, or \<open>None\<close>.
\<close>

definition assertNonEmpty :: "tensor list \<Rightarrow> string option" where
  "assertNonEmpty tensors =
     (if length tensors = 0 then Some ''requires non-empty tensor list'' else None)"

definition assertSingleElement :: "tensor list \<Rightarrow> string option" where
  "assertSingleElement tensors =
     (if length tensors \<noteq> 1 then Some ''requires a single-element tensor list'' else None)"

definition assertSingleElementInput :: "tensor list \<Rightarrow> string option" where
  "assertSingleElementInput tensors =
     (if length tensors \<noteq> 1 then Some ''requires a single-element input tensor list''
      else None)"

definition assertSingleElementOutput :: "tensor list \<Rightarrow> string option" where
  "assertSingleElementOutput tensors =
     (if length tensors \<noteq> 1 then Some ''requires a single-element output tensor list''
      else None)"

definition assertRootRank :: "int \<Rightarrow> int \<Rightarrow> string option" where
  "assertRootRank rank sz =
     (if rank < 0 \<or> rank \<ge> sz then Some ''invalid root rank'' else None)"

definition assertRootTensor :: "int \<Rightarrow> nat \<Rightarrow> string option" where
  "assertRootTensor rank sz =
     (if rank < 0 \<or> rank \<ge> int sz then Some ''invalid root tensor'' else None)"

definition assertDense :: "tensor list \<Rightarrow> string option" where
  "assertDense tensors =
     (if t_layout (hd tensors) \<noteq> kStrided then Some ''only supports dense tensors''
      else None)"

definition assertLayoutMatch :: "tensor list \<Rightarrow> string option" where
  "assertLayoutMatch tensors =
     (if list_all (\<lambda>t. t_layout t = t_layout (hd tensors)) (tl tensors) then None
      else Some ''invalid tensor layout'')"

definition assertTypeAndSizesMatchWith ::
    "tensor list \<Rightarrow> device_type \<times> layout \<times> scalar_type \<Rightarrow> int list \<Rightarrow> string option" where
  "assertTypeAndSizesMatchWith tensors ty szs =
     (if list_all (\<lambda>t. type_of t = ty \<and> t_sizes t = szs) tensors then None
      else Some ''invalid tensor type or size'')"

definition assertTypeAndSizesMatch :: "tensor list \<Rightarrow> string option" where
  "assertTypeAndSizesMatch tensors =
     assertTypeAndSizesMatchWith (tl tensors) (type_of (hd tensors)) (t_sizes (hd tensors))"

text \<open>
  The checks of a dispatch function run in order and the first that fails throws; a later
  one is not reached, so what it would read of an empty list does not matter.
\<close>

fun first_failure :: "string option list \<Rightarrow> string option" where
  "first_failure [] = None"
| "first_failure (None # checks) = first_failure checks"
| "first_failure (Some msg # checks) = Some msg"

text \<open>
  The \<open>switch (device.type())\<close> of the dispatch functions; \<open>use_cuda\<close> is the compile-time
  flag \<open>USE_CUDA\<close>.
\<close>

definition device_supported :: "bool \<Rightarrow> device_type \<Rightarrow> string option" where
  "device_supported use_cuda d =
     (if d = kCPU \<or> (use_cuda \<and> d = kCUDA) then None else Some ''unsupported device type'')"

section \<open>The dispatch functions\<close>

datatype ReduceOp = ReduceOp_SUM | ReduceOp_PRODUCT | ReduceOp_MIN | ReduceOp_MAX | ReduceOp_UNUSED

definition new_work :: "work_kind \<Rightarrow> nat \<Rightarrow> 32 word \<Rightarrow> work" where
  "new_work k ctx tag = \<lparr>work_kind = k, work_context = ctx, work_tag = tag\<rparr>"

text \<open>
  Each dispatch function is given in two parts: \<open>f_checks\<close> is everything it checks
  before it calls \<open>nextTag\<close>, in the order of the source, and \<open>f\<close> is the function.

  The constructors of the CUDA work items of allgather, gather and scatter call
  \<open>initializeStreamsEvents\<close> on a nested tensor list, which throws when the tensors of one
  inner list are not on one device. The device index is not part of \<open>tensor\<close>; the
  outcome of that check is the parameter \<open>same_device\<close> of the three functions.
\<close>

definition broadcast_checks :: "bool \<Rightarrow> process_group \<Rightarrow> tensor list \<Rightarrow> int \<Rightarrow> int \<Rightarrow> string option" where
  "broadcast_checks use_cuda pg inputs rootRank rootTensor =
     first_failure
             [assertRootRank rootRank (pg_size pg),
              assertRootTensor rootTensor (length inputs),
              assertDense inputs,
              assertTypeAndSizesMatch inputs,
              device_supported use_cuda (t_device (hd inputs))]"

definition broadcast :: "bool \<Rightarrow> process_group \<Rightarrow> tensor list \<Rightarrow> int \<Rightarrow> int
    \<Rightarrow> (error + work) \<times> process_group" where
  "broadcast use_cuda pg inputs rootRank rootTensor =
     (case broadcast_checks use_cuda pg inputs rootRank rootTensor of
        Some msg \<Rightarrow> (Inl (InvalidArgument (''ProcessGroupGloo::broadcast: '' @ msg)), pg)
      | None \<Rightarrow>
          (case nextTag pg of
             (tag, pg1) \<Rightarrow>
               let ctx = getContext pg1 tag; d = t_device (hd inputs)
               in if d = kCPU then
                    let w = new_work AsyncBroadcastWork ctx tag in (Inr w, enqueue w pg1)
                  else if use_cuda \<and> d = kCUDA then
                    let w = new_work AsyncBroadcastCUDAWork ctx tag in (Inr w, enqueue w pg1)
                  else (Inl (RuntimeError ''Invalid backend''), pg1)))"

definition ProcessGroupGloo_allreduce_checks :: "bool \<Rightarrow> process_group \<Rightarrow> tensor list \<Rightarrow> ReduceOp \<Rightarrow> string option" where
  "ProcessGroupGloo_allreduce_checks use_cuda pg inputs reduceOp =
     first_failure
             [assertNonEmpty inputs,
              assertLayoutMatch inputs,
              assertTypeAndSizesMatch inputs,
              device_supported use_cuda (t_device (hd inputs)),
              (if t_layout (hd inputs) = kSparse \<and> reduceOp \<noteq> ReduceOp_SUM
               then Some ''unsupported reduction operation (allreduce of sparse tensors only works with ReduceOp.SUM)''
               else None)]"

definition ProcessGroupGloo_allreduce :: "bool \<Rightarrow> process_group \<Rightarrow> tensor list \<Rightarrow> ReduceOp
    \<Rightarrow> (error + work) \<times> process_group" where
  "ProcessGroupGloo_allreduce use_cuda pg inputs reduceOp =
     (case ProcessGroupGloo_allreduce_checks use_cuda pg inputs reduceOp of
        Some msg \<Rightarrow> (Inl (InvalidArgument (''ProcessGroupGloo::allreduce: '' @ msg)), pg)
      | None \<Rightarrow>
          (case nextTag pg of
             (tag, pg1) \<Rightarrow>
               let ctx = getContext pg1 tag; d = t_device (hd inputs); l = t_layout (hd inputs)
               in if d = kCPU then
                    if l = kStrided then
                      let w = new_work AsyncAllreduceWork ctx tag in (Inr w, enqueue w pg1)
                    else if l = kSparse then
                      let w = new_work AsyncSparseAllreduceWork ctx tag in (Inr w, enqueue w pg1)
                    else (Inl (InvalidArgument
                                 (''ProcessGroupGloo::allreduce: '' @ ''unsupported layout'')), pg1)
                  else if use_cuda \<and> d = kCUDA then
                    if l = kStrided then
                      let w = new_work AsyncAllreduceCUDAWork ctx tag in (Inr w, enqueue w pg1)
                    else if l = kSparse then
                      let w = new_work AsyncSparseAllreduceCUDAWork ctx tag
                      in (Inr w, enqueue w pg1)
                    else (Inl (InvalidArgument
                                 (''ProcessGroupGloo::allreduce: '' @ ''unsupported layout'')), pg1)
                  else (Inl (RuntimeError ''Invalid backend''), pg1)))"

definition allreduce_coalesced_checks :: "process_group \<Rightarrow> tensor list \<Rightarrow> ReduceOp \<Rightarrow> string option" where
  "allreduce_coalesced_checks pg tensors reduceOp =
     first_failure
             [assertNonEmpty tensors,
              assertLayoutMatch tensors,
              (if list_all (\<lambda>t. type_of t = type_of (hd tensors)) tensors then None
               else Some ''tensors must all have the same type''),
              (if list_all (\<lambda>t. t_device t = t_device (hd tensors)) tensors then None
               else Some ''tensors must all be on the same device''),
              (if t_device (hd tensors) = kCPU then None else Some ''unsupported device type''),
              (if t_layout (hd tensors) = kStrided then None else Some ''unsupported layout'')]"

definition allreduce_coalesced :: "process_group \<Rightarrow> tensor list \<Rightarrow> ReduceOp
    \<Rightarrow> (error + work) \<times> process_group" where
  "allreduce_coalesced pg tensors reduceOp =
     (case allreduce_coalesced_checks pg tensors reduceOp of
        Some msg \<Rightarrow>
          (Inl (InvalidArgument (''ProcessGroupGloo::allreduce_coalesced: '' @ msg)), pg)
      | None \<Rightarrow>
          (case nextTag pg of
             (tag, pg1) \<Rightarrow>
               let ctx = getContext pg1 tag
               in if t_device (hd tensors) = kCPU then
                    if t_layout (hd tensors) = kStrided then
                      let w = new_work AsyncAllreduceCoalescedWork ctx tag
                      in (Inr w, enqueue w pg1)
                    else (Inl (InvalidArgument
                                 (''ProcessGroupGloo::allreduce_coalesced: '' @
                                  ''unsupported layout'')), pg1)
                  else (Inl (RuntimeError ''Invalid backend''), pg1)))"

definition reduce_checks :: "bool \<Rightarrow> process_group \<Rightarrow> tensor list \<Rightarrow> int \<Rightarrow> int \<Rightarrow> ReduceOp \<Rightarrow> string option" where
  "reduce_checks use_cuda pg inputs rootRank rootTensor reduceOp =
     first_failure
             [assertRootRank rootRank (pg_size pg),
              assertRootTensor rootTensor (length inputs),
              assertSingleElement inputs,
              assertDense inputs,
              device_supported use_cuda (t_device (hd inputs))]"

definition reduce :: "bool \<Rightarrow> process_group \<Rightarrow> tensor list \<Rightarrow> int \<Rightarrow> int \<Rightarrow> ReduceOp
    \<Rightarrow> (error + work) \<times> process_group" where
  "reduce use_cuda pg inputs rootRank rootTensor reduceOp =
     (case reduce_checks use_cuda pg inputs rootRank rootTensor reduceOp of
        Some msg \<Rightarrow> (Inl (InvalidArgument (''ProcessGroupGloo::reduce: '' @ msg)), pg)
      | None \<Rightarrow>
          (case nextTag pg of
             (tag, pg1) \<Rightarrow>
               let ctx = getContext pg1 tag; d = t_device (hd inputs)
               in if d = kCPU then
                    let w = new_work AsyncReduceWork ctx tag in (Inr w, enqueue w pg1)
                  else if use_cuda \<and> d = kCUDA then
                    let w = new_work AsyncReduceCUDAWork ctx tag in (Inr w, enqueue w pg1)
                  else (Inl (RuntimeError ''Invalid backend''), pg1)))"

definition allgather_checks :: "bool \<Rightarrow> bool \<Rightarrow> process_group \<Rightarrow> tensor list list \<Rightarrow> tensor list \<Rightarrow> string option" where
  "allgather_checks use_cuda same_device pg outputs inputs =
     first_failure
             ([(if length inputs = 0 then Some ''requires non-empty input tensor list'' else None),
               (if length inputs \<noteq> length outputs
                then Some ''requires input/output tensor lists to have the same length''
                else None)] @
              map (\<lambda>out. if int (length out) \<noteq> int (length inputs) * pg_size pg
                          then Some ''invalid output tensor list'' else None) outputs @
              [assertDense inputs,
               assertTypeAndSizesMatchWith inputs (type_of (hd inputs)) (t_sizes (hd inputs))] @
              map (\<lambda>out. assertTypeAndSizesMatchWith out (type_of (hd inputs))
                            (t_sizes (hd inputs))) outputs @
              [device_supported use_cuda (t_device (hd inputs))])"

definition allgather :: "bool \<Rightarrow> bool \<Rightarrow> process_group \<Rightarrow> tensor list list \<Rightarrow> tensor list
    \<Rightarrow> (error + work) \<times> process_group" where
  "allgather use_cuda same_device pg outputs inputs =
     (case allgather_checks use_cuda same_device pg outputs inputs of
        Some msg \<Rightarrow> (Inl (InvalidArgument (''ProcessGroupGloo::allgather: '' @ msg)), pg)
      | None \<Rightarrow>
          (case nextTag pg of
             (tag, pg1) \<Rightarrow>
               let ctx = getContext pg1 tag; d = t_device (hd inputs)
               in if d = kCPU then
                    let w = new_work AsyncAllgatherWork ctx tag in (Inr w, enqueue w pg1)
                  else if use_cuda \<and> d = kCUDA then
                    if \<not> same_device then
                      (Inl (RuntimeError
                         ''tensors in the nested tensor vectors need to be on the same device''),
                       pg1)
                    else
                      let w = new_work AsyncAllgatherCUDAWork ctx tag in (Inr w, enqueue w pg1)
                  else (Inl (RuntimeError ''Invalid backend''), pg1)))"

definition gather_checks :: "bool \<Rightarrow> bool \<Rightarrow> process_group \<Rightarrow> tensor list list \<Rightarrow> tensor list \<Rightarrow> int \<Rightarrow> string option" where
  "gather_checks use_cuda same_device pg outputs inputs rootRank =
     first_failure
             ([assertRootRank rootRank (pg_size pg),
               assertSingleElementInput inputs,
               assertDense inputs] @
              (if pg_rank pg = rootRank then
                 [(if length outputs \<noteq> 1 \<or> int (length (hd outputs)) \<noteq> pg_size pg
                   then Some ''requires a single-element output list containing a list with <size> tensors''
                   else None),
                  assertTypeAndSizesMatchWith (hd outputs) (type_of (hd inputs))
                    (t_sizes (hd inputs))]
               else
                 [(if length outputs \<noteq> 0 then Some ''requires empty output on non-root''
                   else None)]) @
              [device_supported use_cuda (t_device (hd inputs))])"

definition gather :: "bool \<Rightarrow> bool \<Rightarrow> process_group \<Rightarrow> tensor list list \<Rightarrow> tensor list \<Rightarrow> int
    \<Rightarrow> (error + work) \<times> process_group" where
  "gather use_cuda same_device pg outputs inputs rootRank =
     (case gather_checks use_cuda same_device pg outputs inputs rootRank of
        Some msg \<Rightarrow> (Inl (InvalidArgument (''ProcessGroupGloo::gather: '' @ msg)), pg)
      | None \<Rightarrow>
          (case nextTag pg of
             (tag, pg1) \<Rightarrow>
               let ctx = getContext pg1 tag; d = t_device (hd inputs)
               in if d = kCPU then
                    let w = new_work AsyncGatherWork ctx tag in (Inr w, enqueue w pg1)
                  else if use_cuda \<and> d = kCUDA then
                    if \<not> same_device then
                      (Inl (RuntimeError
                         ''tensors in the nested tensor vectors need to be on the same device''),
                       pg1)
                    else
                      let w = new_work AsyncGatherCUDAWork ctx tag in (Inr w, enqueue w pg1)
                  else (Inl (RuntimeError ''Invalid backend''), pg1)))"

definition scatter_checks :: "bool \<Rightarrow> bool \<Rightarrow> process_group \<Rightarrow> tensor list \<Rightarrow> tensor list list \<Rightarrow> int \<Rightarrow> string option" where
  "scatter_checks use_cuda same_device pg outputs inputs rootRank =
     first_failure
             ([assertRootRank rootRank (pg_size pg),
               assertSingleElementOutput outputs,
               assertDense outputs] @
              (if pg_rank pg = rootRank then
                 [(if length inputs \<noteq> 1 \<or> int (length (hd inputs)) \<noteq> pg_size pg
                   then Some ''requires a single-element input list containing a list with <size> tensors''
                   else None),
                  assertTypeAndSizesMatchWith (hd inputs) (type_of (hd outputs))
                    (t_sizes (hd outputs))]
               else
                 [(if length inputs \<noteq> 0 then Some ''requires empty input on non-root''
                   else None)]) @
              [device_supported use_cuda (t_device (hd outputs))])"

definition scatter :: "bool \<Rightarrow> bool \<Rightarrow> process_group \<Rightarrow> tensor list \<Rightarrow> tensor list list \<Rightarrow> int
    \<Rightarrow> (error + work) \<times> process_group" where
  "scatter use_cuda same_device pg outputs inputs rootRank =
     (case scatter_checks use_cuda same_device pg outputs inputs rootRank of
        Some msg \<Rightarrow> (Inl (InvalidArgument (''ProcessGroupGloo::scatter: '' @ msg)), pg)
      | None \<Rightarrow>
          (case nextTag pg of
             (tag, pg1) \<Rightarrow>
               let ctx = getContext pg1 tag; d = t_device (hd outputs)
               in if d = kCPU then
                    let w = new_work AsyncScatterWork ctx tag in (Inr w, enqueue w pg1)
                  else if use_cuda \<and> d = kCUDA then
                    if \<not> same_device then
                      (Inl (RuntimeError
                         ''tensors in the nested tensor vectors need to be on the same device''),
                       pg1)
                    else
                      let w = new_work AsyncScatterCUDAWork ctx tag in (Inr w, enqueue w pg1)
                  else (Inl (RuntimeError ''Invalid backend''), pg1)))"

text \<open>
  \<open>barrier\<close>: the snapshot of prior work is a list of weak pointers inside the work item,
  which the queue entry does not keep; then \<open>nextTag\<close>, \<open>getContext\<close> and \<open>enqueue\<close>.
\<close>

definition barrier :: "process_group \<Rightarrow> (error + work) \<times> process_group" where
  "barrier pg =
     (case nextTag pg of
        (tag, pg1) \<Rightarrow>
          let ctx = getContext pg1 tag; w = new_work AsyncBarrierWork ctx tag
          in (Inr w, enqueue w pg1))"

text \<open>A call of the dispatch layer, and a sequence of calls on one group.\<close>

datatype dispatch_call =
    Broadcast "tensor list" int int
  | Allreduce "tensor list" ReduceOp
  | AllreduceCoalesced "tensor list" ReduceOp
  | Reduce "tensor list" int int ReduceOp
  | Allgather bool "tensor list list" "tensor list"
  | Gather bool "tensor list list" "tensor list" int
  | Scatter bool "tensor list" "tensor list list" int
  | Barrier

fun dispatch :: "bool \<Rightarrow> dispatch_call \<Rightarrow> process_group \<Rightarrow> (error + work) \<times> process_group" where
  "dispatch use_cuda (Broadcast inputs rootRank rootTensor) pg =
     broadcast use_cuda pg inputs rootRank rootTensor"
| "dispatch use_cuda (Allreduce inputs reduceOp) pg = ProcessGroupGloo_allreduce use_cuda pg inputs reduceOp"
| "dispatch use_cuda (AllreduceCoalesced tensors reduceOp) pg =
     allreduce_coalesced pg tensors reduceOp"
| "dispatch use_cuda (Reduce inputs rootRank rootTensor reduceOp) pg =
     reduce use_cuda pg inputs rootRank rootTensor reduceOp"
| "dispatch use_cuda (Allgather same_device outputs inputs) pg =
     allgather use_cuda same_device pg outputs inputs"
| "dispatch use_cuda (Gather same_device outputs inputs rootRank) pg =
     gather use_cuda same_device pg outputs inputs rootRank"
| "dispatch use_cuda (Scatter same_device outputs inputs rootRank) pg =
     scatter use_cuda same_device pg outputs inputs rootRank"
| "dispatch use_cuda Barrier pg = barrier pg"

definition run_calls :: "bool \<Rightarrow> dispatch_call list \<Rightarrow> process_group \<Rightarrow> process_group" where
  "run_calls use_cuda calls pg = fold (\<lambda>c pg. snd (dispatch use_cuda c pg)) calls pg"

text \<open>A CPU tensor in the MKL-DNN layout, which is neither strided nor sparse.\<close>

definition example_mkldnn :: tensor where
  "example_mkldnn =
     \<lparr>t_device = kCPU, t_layout = kMkldnn, t_dtype = kFloat, t_sizes = [2, 3],
      t_contiguous = True, t_data_ptr = 8192\<rparr>"

section \<open>Notions for the proofs about tags\<close>

text \<open>The tags of the queued work items, in queue order.\<close>

definition tags :: "process_group \<Rightarrow> 32 word list" where
  "tags pg = map work_tag (workQueue pg)"

text \<open>
  What one dispatch call can do to the counter and the queue: nothing; or advance the
  counter by one and enqueue nothing, or enqueue one work item tagged with the old counter.
\<close>

definition step_effect :: "process_group \<Rightarrow> process_group \<Rightarrow> bool" where
  "step_effect pg pg' \<longleftrightarrow>
     (collectiveCounter pg' = collectiveCounter pg \<and> tags pg' = tags pg) \<or>
     (collectiveCounter pg' = collectiveCounter pg + 1 \<and>
      (tags pg' = tags pg \<or> tags pg' = tags pg @ [collectiveCounter pg]))"

text \<open>
  After \<open>m\<close> calls of \<open>nextTag\<close> on a group whose counter was \<open>c0\<close>: the counter is
  \<open>c0 + m\<close> on 32 bits, and the queued tags are \<open>c0 + j\<close> for increasing \<open>j < m\<close>.
\<close>

definition issued :: "32 word \<Rightarrow> nat \<Rightarrow> process_group \<Rightarrow> bool" where
  "issued c0 m pg \<longleftrightarrow>
     collectiveCounter pg = c0 + of_nat m \<and>
     (\<exists>js. tags pg = map (\<lambda>j. c0 + of_nat j) js \<and> sorted_wrt (<) js \<and> (\<forall>j\<in>set js. j < m))"

section \<open>AsyncAllreduceWork\<close>



text \<open>
  \<open>GENERATE_ALL_TYPES\<close>: the scalar types with a case; every other one throws
  \<open>"Invalid scalar type"\<close>.
\<close>

fun generate_all_types :: "scalar_type \<Rightarrow> bool" where
  "generate_all_types kFloat = True"
| "generate_all_types kDouble = True"
| "generate_all_types kHalf = True"
| "generate_all_types kChar = True"
| "generate_all_types kByte = True"
| "generate_all_types kInt = True"
| "generate_all_types kLong = True"
| "generate_all_types kShort = False"
| "generate_all_types kBool = False"











section \<open>The worker pool and the destructor\<close>

text \<open>
  \<open>runLoop\<close>, \<open>enqueue\<close> and the destructor run on different threads and meet under
  \<open>workMutex_\<close>. The embedding is an interleaving of their steps, each step one critical
  section of the mutex or the \<open>execute\<close> call between two of them. A wait on a condition
  variable is a step that is enabled when what it waits for holds; a spurious wake-up
  changes nothing and is no step.

  A worker is at the head of its loop (holding or waiting for the lock), executing a work
  item with the lock released, about to take the lock again, or out of the loop. The
  destructor has not started, waits on \<open>workConsumeCV_\<close> for the queue to be empty, joins
  the threads, or has returned.
\<close>

datatype worker_pc = AtLoopHead | Executing work | Relocking | Exited

datatype destructor_pc = NotStarted | WaitingForQueue | Joining | Destroyed

text \<open>
  The group with its threads. \<open>executed\<close> and \<open>enqueued_before\<close> are not in the source:
  they record the work items whose \<open>AsyncWork::execute\<close> has returned, and the work items
  enqueued before the destructor started.
\<close>

record system =
  the_group :: process_group
  workers :: "worker_pc list"
  destructor :: destructor_pc
  executed :: "work list"
  enqueued_before :: "work list"

datatype event =
    Enqueue work
  | TakeWork nat
  | ExecuteDone nat
  | Relock nat
  | ExitLoop nat
  | DestructorStart
  | DestructorStop
  | DestructorJoined

text \<open>
  \<open>fire e s\<close> is the state after the step \<open>e\<close>, or \<open>None\<close> when \<open>e\<close> cannot happen in \<open>s\<close>.
  \<^item> \<open>Enqueue w\<close>: \<open>enqueue(work)\<close>, from any thread at any time.
  \<^item> \<open>TakeWork i\<close>: worker \<open>i\<close> passes \<open>while (!stop_)\<close> with a non-empty queue, pops the
    front into \<open>workInProgress_[i]\<close> and unlocks.
  \<^item> \<open>ExecuteDone i\<close>: \<open>AsyncWork::execute\<close> returns on worker \<open>i\<close>.
  \<^item> \<open>Relock i\<close>: worker \<open>i\<close> locks and clears \<open>workInProgress_[i]\<close>.
  \<^item> \<open>ExitLoop i\<close>: worker \<open>i\<close> reads \<open>stop_\<close> as set and leaves the loop.
  \<^item> \<open>DestructorStart\<close>: the destructor takes the lock.
  \<^item> \<open>DestructorStop\<close>: the wait for \<open>workQueue_.empty()\<close> is over; \<open>stop_ = true\<close>,
    unlock, \<open>notify_all\<close>.
  \<^item> \<open>DestructorJoined\<close>: every \<open>thread.join()\<close> has returned.
\<close>

fun fire :: "event \<Rightarrow> system \<Rightarrow> system option" where
  "fire (Enqueue w) s =
     Some (s\<lparr>the_group := enqueue w (the_group s),
             enqueued_before :=
               (if destructor s = NotStarted then enqueued_before s @ [w]
                else enqueued_before s)\<rparr>)"
| "fire (TakeWork i) s =
     (if i < length (workers s) \<and> workers s ! i = AtLoopHead \<and> \<not> stop (the_group s) then
        (case workQueue (the_group s) of
           [] \<Rightarrow> None
         | w # q \<Rightarrow>
             Some (s\<lparr>the_group := (the_group s)\<lparr>workQueue := q,
                        workInProgress := (workInProgress (the_group s))[i := Some w]\<rparr>,
                     workers := (workers s)[i := Executing w]\<rparr>))
      else None)"
| "fire (ExecuteDone i) s =
     (if i < length (workers s) then
        (case workers s ! i of
           Executing w \<Rightarrow>
             Some (s\<lparr>executed := executed s @ [w], workers := (workers s)[i := Relocking]\<rparr>)
         | _ \<Rightarrow> None)
      else None)"
| "fire (Relock i) s =
     (if i < length (workers s) \<and> workers s ! i = Relocking then
        Some (s\<lparr>the_group := (the_group s)\<lparr>workInProgress := (workInProgress (the_group s))[i := None]\<rparr>,
                workers := (workers s)[i := AtLoopHead]\<rparr>)
      else None)"
| "fire (ExitLoop i) s =
     (if i < length (workers s) \<and> workers s ! i = AtLoopHead \<and> stop (the_group s) then
        Some (s\<lparr>workers := (workers s)[i := Exited]\<rparr>)
      else None)"
| "fire DestructorStart s =
     (if destructor s = NotStarted then Some (s\<lparr>destructor := WaitingForQueue\<rparr>) else None)"
| "fire DestructorStop s =
     (if destructor s = WaitingForQueue \<and> workQueue (the_group s) = [] then
        Some (s\<lparr>the_group := (the_group s)\<lparr>stop := True\<rparr>, destructor := Joining\<rparr>)
      else None)"
| "fire DestructorJoined s =
     (if destructor s = Joining \<and> list_all (\<lambda>pc. pc = Exited) (workers s) then
        Some (s\<lparr>destructor := Destroyed\<rparr>)
      else None)"

fun run_events :: "event list \<Rightarrow> system \<Rightarrow> system option" where
  "run_events [] s = Some s"
| "run_events (e # es) s = (case fire e s of None \<Rightarrow> None | Some s' \<Rightarrow> run_events es s')"

text \<open>A group as its constructor leaves it: one thread per slot of \<open>workInProgress_\<close>.\<close>

definition initial_system :: "process_group \<Rightarrow> system" where
  "initial_system pg =
     \<lparr>the_group = pg, workers = replicate (length (workInProgress pg)) AtLoopHead,
      destructor = NotStarted, executed = [], enqueued_before = []\<rparr>"

text \<open>The work items that some worker is executing.\<close>

definition in_execution :: "system \<Rightarrow> work set" where
  "in_execution s = {w. Executing w \<in> set (workers s)}"

text \<open>What holds of every state of a run (used in the proof of claim C8).\<close>

definition pool_invariant :: "system \<Rightarrow> bool" where
  "pool_invariant s \<longleftrightarrow>
     (stop (the_group s) \<longleftrightarrow> destructor s = Joining \<or> destructor s = Destroyed) \<and>
     set (enqueued_before s) \<subseteq>
       set (workQueue (the_group s)) \<union> in_execution s \<union> set (executed s) \<and>
     (stop (the_group s) \<longrightarrow> set (enqueued_before s) \<subseteq> in_execution s \<union> set (executed s)) \<and>
     (destructor s = Destroyed \<longrightarrow> set (workers s) \<subseteq> {Exited})"

text \<open>
  A run of a group with two workers: one work item is enqueued and taken by worker 0, the
  destructor starts and finds the queue empty while the item is still being executed, the
  item completes, both workers leave their loops and are joined.
\<close>

definition example_work :: work where
  "example_work = \<lparr>work_kind = AsyncAllreduceWork, work_context = 0, work_tag = 0\<rparr>"

definition example_events :: "event list" where
  "example_events =
     [Enqueue example_work, TakeWork 0, DestructorStart, DestructorStop, ExecuteDone 0,
      Relock 0, ExitLoop 0, ExitLoop 1, DestructorJoined]"

section \<open>Coordinate-sparse tensors\<close>

text \<open>
  A sparse-coo tensor of the tensor library, as the sparse allreduce reads it: the full
  shape \<open>sizes\<close> (sparse dimensions first, dense dimensions after), the number of sparse
  dimensions, the index matrix and the values. The index matrix of shape
  \<open>[sparse_dim, nnz]\<close> is kept column by column: \<open>indices t ! j\<close> is the coordinate vector
  of the \<open>j\<close>-th entry, so \<open>narrow(1, 0, n)\<close> keeps the first \<open>n\<close> columns. \<open>vals t ! j\<close>
  is the value block \<open>values()[j]\<close> of dense shape, an element of the type \<open>'v\<close>. Value
  blocks are added element-wise by the tensor library; the embedding takes that addition
  as the \<open>+\<close> of \<open>'v\<close> and asks no law of it, so that integer addition with wrap-around and
  the addition of floating point numbers are both instances. \<open>scalar_type\<close> is the
  element type as the code reads it with \<open>tensor.scalar_type()\<close>. The field is called
  \<open>vals\<close> because \<open>values\<close> is a command of Isabelle.
\<close>

record 'v sparse_tensor =
  sizes :: "int list"
  sparse_dim :: nat
  scalar_type :: scalar_type
  indices :: "int list list"
  vals :: "'v list"

definition dense_dim :: "'v sparse_tensor \<Rightarrow> nat" where
  "dense_dim t = length (sizes t) - sparse_dim t"

definition nnz :: "'v sparse_tensor \<Rightarrow> nat" where
  "nnz t = length (indices t)"

definition size_at :: "'v sparse_tensor \<Rightarrow> nat \<Rightarrow> int" where
  "size_at t i = sizes t ! i"

definition sparse_sizes :: "'v sparse_tensor \<Rightarrow> int list" where
  "sparse_sizes t = take (sparse_dim t) (sizes t)"

definition dense_sizes :: "'v sparse_tensor \<Rightarrow> int list" where
  "dense_sizes t = drop (sparse_dim t) (sizes t)"

section \<open>SparseTensorMetadata\<close>

text \<open>
  The nine int64 slots \<open>data_\<close> of a metadata row: \<open>[0:4]\<close> sparse sizes, \<open>[4:8]\<close> dense
  sizes, \<open>[8]\<close> nnz. The values stored are sizes and counts of an existing tensor, int64
  already, so no conversion happens and the slots are modelled as \<open>int\<close>.
\<close>

type_synonym metadata = "int list"

definition SparseTensorMetadata_dim :: nat where
  "SparseTensorMetadata_dim = 9"

text \<open>The constructor: \<open>AT_ASSERT(metadata.size(0) == dim)\<close>.\<close>

definition SparseTensorMetadata :: "int list \<Rightarrow> error + metadata" where
  "SparseTensorMetadata m =
     (if length m = SparseTensorMetadata_dim then Inr m
      else Inl (C10Error ''metadata.size(0) == dim''))"

text \<open>
  \<open>populate_from_sparse_tensor\<close>: two loops over \<open>i = 0..3\<close> that write slot \<open>i\<close>
  (slot \<open>i + 4\<close>) only when \<open>i\<close> is a sparse (dense) dimension of the tensor, then the
  store of nnz. A slot the loops skip keeps what it held. An assertion that fails ends
  the call; the row it leaves half written belongs to a buffer that dies with the
  exception.
\<close>

definition populate_from_sparse_tensor :: "'v sparse_tensor \<Rightarrow> metadata \<Rightarrow> error + metadata" where
  "populate_from_sparse_tensor tensor data =
     (if \<not> sparse_dim tensor \<le> 4 then Inl (C10Error ''sparse_dim <= 4'')
      else
        let d1 = fold (\<lambda>i d. if i < sparse_dim tensor then d[i := size_at tensor i] else d)
                   [0..<4] data
        in if \<not> dense_dim tensor \<le> 4 then Inl (C10Error ''dense_dim <= 4'')
           else
             let d2 = fold (\<lambda>i d. if i < dense_dim tensor
                                   then d[i + 4 := size_at tensor (sparse_dim tensor + i)]
                                   else d)
                        [0..<4] d1
             in Inr (d2[8 := int (nnz tensor)]))"

text \<open>
  \<open>sizes()\<close>: each loop pushes slots until the first one that is \<open>\<le> 0\<close> (\<open>break\<close>).
\<close>

definition md_sizes :: "metadata \<Rightarrow> int list" where
  "md_sizes data =
     takeWhile (\<lambda>x. \<not> x \<le> 0) (map (\<lambda>i. data ! i) [0..<4]) @
     takeWhile (\<lambda>x. \<not> x \<le> 0) (map (\<lambda>i. data ! i) [4..<8])"

definition md_nnz :: "metadata \<Rightarrow> int" where
  "md_nnz data = data ! 8"

text \<open>A tensor of shape \<open>[5, 7, 3]\<close> with two sparse dimensions and two entries.\<close>

definition example_tensor :: "int sparse_tensor" where
  "example_tensor =
     \<lparr>sizes = [5, 7, 3], sparse_dim = 2, scalar_type = kLong,
      indices = [[0, 1], [4, 6]], vals = [10, 20]\<rparr>"

section \<open>Operations of the tensor library on sparse tensors\<close>

text \<open>
  The sum of a list of value blocks, accumulated from the first block on in the order of
  the list; zero for the empty list.
\<close>

fun sum_in_order :: "'v::{plus,zero} list \<Rightarrow> 'v" where
  "sum_in_order [] = 0"
| "sum_in_order (x # xs) = foldl (+) x xs"

text \<open>
  The value blocks that a sparse tensor lists at a coordinate of its sparse dimensions,
  in the order of its entries (an uncoalesced tensor may list a coordinate more than
  once), and the value of the tensor there: their sum, zero when there is none.
\<close>

definition entries_at :: "'v sparse_tensor \<Rightarrow> int list \<Rightarrow> 'v list" where
  "entries_at t c = map snd (filter (\<lambda>e. fst e = c) (zip (indices t) (vals t)))"

definition value_at :: "'v::{plus,zero} sparse_tensor \<Rightarrow> int list \<Rightarrow> 'v" where
  "value_at t c = sum_in_order (entries_at t c)"

text \<open>
  Modelled from the spec: \<open>coalesce()\<close> of the tensor library, which is not among the
  sources. Glossary: canonicalize a coordinate-sparse tensor, unique sorted indices with
  summed values. The order is the lexicographic order of the coordinates, which is the
  order of the flattened index for coordinates inside the shape. The values of one
  coordinate are summed in the order of the entries.
\<close>

definition coalesce :: "'v::{plus,zero} sparse_tensor \<Rightarrow> 'v sparse_tensor" where
  "coalesce t =
     (let idx = sort (remdups (indices t))
      in t\<lparr>indices := idx, vals := map (value_at t) idx\<rparr>)"


text \<open>
  Modelled from the spec: the sum of two sparse tensors (\<open>+=\<close>), whose result lists the
  entries of both; the operands must have one shape. The result is what the left operand
  holds afterwards; it keeps the scalar type of the left operand (the tensors of one list
  have one type when they come through \<open>ProcessGroupGloo::allreduce\<close>, which checks it).
\<close>

definition add_sparse :: "'v sparse_tensor \<Rightarrow> 'v sparse_tensor \<Rightarrow> error + 'v sparse_tensor" where
  "add_sparse a b =
     (if sizes a \<noteq> sizes b \<or> sparse_dim a \<noteq> sparse_dim b
      then Inl (C10Error ''add: expected sizes of self and other to match'')
      else Inr (a\<lparr>indices := indices a @ indices b, vals := vals a @ vals b\<rparr>))"

text \<open>
  Modelled from the spec: \<open>at::sparse_coo_tensor(indices, values, sizes, options)\<close>. The
  number of sparse dimensions is the number of rows of the index matrix, which the caller
  passes as \<open>sd\<close> since the matrix is kept by columns. There must be one value block per
  column. Of the options only the scalar type is kept. The constructor's check that the
  indices lie inside \<open>sizes\<close> is not modelled.
\<close>

definition sparse_coo_tensor ::
    "nat \<Rightarrow> int list list \<Rightarrow> 'v list \<Rightarrow> int list \<Rightarrow> scalar_type \<Rightarrow> error + 'v sparse_tensor" where
  "sparse_coo_tensor sd idx vs szs dtype =
     (if length idx \<noteq> length vs
      then Inl (C10Error ''indices and values must have same nnz'')
      else Inr \<lparr>sizes = szs, sparse_dim = sd, scalar_type = dtype, indices = idx, vals = vs\<rparr>)"

section \<open>AsyncSparseAllreduceWork\<close>

text \<open>
  Tensor objects by identity: \<open>cell h a\<close> is what the tensor with handle \<open>a\<close> holds, and
  \<open>next_free h\<close> is the first handle not yet in use. A \<open>std::vector<at::Tensor>\<close> is a list
  of handles: copying the vector or one of its elements copies handles, not tensors.
\<close>

record 'v heap =
  cell :: "nat \<Rightarrow> 'v sparse_tensor"
  next_free :: nat

text \<open>\<open>clone()\<close>: a new tensor object with the same contents.\<close>

definition clone :: "'v sparse_tensor \<Rightarrow> 'v heap \<Rightarrow> nat \<times> 'v heap" where
  "clone t h = (next_free h, h\<lparr>cell := (cell h)(next_free h := t), next_free := Suc (next_free h)\<rparr>)"

record gloo_context =
  ctx_rank :: nat
  ctx_size :: nat

text \<open>
  Modelled from the spec: the transport's \<open>gloo::allgather\<close> with only an output buffer
  set. Every rank contributes the chunk of its buffer at its own rank, and afterwards the
  buffer of every rank holds the chunks of all ranks in rank order. \<open>own\<close> is the chunk of
  the calling rank; \<open>peers ! k\<close> is the chunk that rank \<open>k\<close> contributes to the same call,
  or \<open>None\<close> when rank \<open>k\<close> never makes the call, and then the call fails on the ranks that
  do (the context's timeout). The buffers of all ranks have one shape.
\<close>

definition gloo_allgather :: "gloo_context \<Rightarrow> 'c \<Rightarrow> 'c option list \<Rightarrow> error + 'c list" where
  "gloo_allgather ctx own peers =
     (let chunks = peers[ctx_rank ctx := Some own]
      in if length chunks = ctx_size ctx \<and> list_all (\<lambda>c. c \<noteq> None) chunks
         then Inr (map the chunks)
         else Inl (RuntimeError ''allgather: timed out''))"

text \<open>The loop \<open>for i = 1..: input += tensors[i]\<close>, in place on the tensor \<open>inp\<close>.\<close>

fun local_reduction :: "nat \<Rightarrow> nat list \<Rightarrow> 'v heap \<Rightarrow> error + 'v heap" where
  "local_reduction inp [] h = Inr h"
| "local_reduction inp (t # ts) h =
     (case add_sparse (cell h inp) (cell h t) of
        Inl e \<Rightarrow> Inl e
      | Inr s \<Rightarrow> local_reduction inp ts (h\<lparr>cell := (cell h)(inp := s)\<rparr>))"

text \<open>
  \<open>allgather_metadata\<close>: a \<open>[size, 9]\<close> buffer of zeros, this rank's row populated, then
  the allgather.
\<close>

definition allgather_metadata ::
    "gloo_context \<Rightarrow> 'v sparse_tensor \<Rightarrow> metadata option list \<Rightarrow> error + metadata list" where
  "allgather_metadata ctx tensor peers =
     (case populate_from_sparse_tensor tensor (replicate SparseTensorMetadata_dim 0) of
        Inl e \<Rightarrow> Inl e
      | Inr row \<Rightarrow> gloo_allgather ctx row peers)"

text \<open>\<open>max_nnz\<close>: \<open>metadata[0].nnz()\<close>, then \<open>std::max\<close> over the other rows.\<close>

definition max_nnz :: "metadata list \<Rightarrow> int" where
  "max_nnz metadata = fold (\<lambda>m acc. max acc (md_nnz m)) (tl metadata) (md_nnz (hd metadata))"

text \<open>
  The chunk of a rank in the index and value buffers: the buffer comes from \<open>at::empty\<close>,
  so beyond the \<open>nnz\<close> columns (blocks) copied into it the chunk holds whatever the memory
  held, which is the parameter \<open>junk\<close>.
\<close>

definition padded :: "(nat \<Rightarrow> 'c) \<Rightarrow> 'c list \<Rightarrow> int \<Rightarrow> 'c list" where
  "padded junk xs m = xs @ map junk [length xs..<nat m]"

text \<open>
  \<open>allgather_indices\<close> and \<open>allgather_values\<close>. \<open>narrow(_, 0, n)\<close> throws when \<open>n\<close> exceeds
  the extent; reading back, \<open>metadata[i].nnz()\<close> is at most \<open>max_nnz\<close>, the extent. The
  index buffer is always of type \<open>long\<close>. The value buffer has the scalar type of the
  tensor, and \<open>GENERATE_ALL_TYPES(tensor.scalar_type(), setOutput, opts, buffer)\<close> throws
  for a scalar type outside its cases, after the copy into the buffer and before the
  allgather.
\<close>

definition allgather_indices ::
    "gloo_context \<Rightarrow> (nat \<Rightarrow> int list) \<Rightarrow> 'v sparse_tensor \<Rightarrow> metadata list
      \<Rightarrow> int list list option list \<Rightarrow> error + int list list list" where
  "allgather_indices ctx junk tensor metadata peers =
     (let m = max_nnz metadata
      in if m < int (nnz tensor) then Inl (C10Error ''narrow: out of range'')
         else
           (case gloo_allgather ctx (padded junk (indices tensor) m) peers of
              Inl e \<Rightarrow> Inl e
            | Inr buffer \<Rightarrow>
                Inr (map (\<lambda>i. take (nat (md_nnz (metadata ! i))) (buffer ! i))
                       [0..<length metadata])))"

definition allgather_values ::
    "gloo_context \<Rightarrow> (nat \<Rightarrow> 'v) \<Rightarrow> 'v sparse_tensor \<Rightarrow> metadata list
      \<Rightarrow> 'v list option list \<Rightarrow> error + 'v list list" where
  "allgather_values ctx junk tensor metadata peers =
     (let m = max_nnz metadata
      in if m < int (nnz tensor) then Inl (C10Error ''narrow: out of range'')
         else if \<not> generate_all_types (scalar_type tensor)
         then Inl (RuntimeError ''Invalid scalar type'')
         else
           (case gloo_allgather ctx (padded junk (vals tensor) m) peers of
              Inl e \<Rightarrow> Inl e
            | Inr buffer \<Rightarrow>
                Inr (map (\<lambda>i. take (nat (md_nnz (metadata ! i))) (buffer ! i))
                       [0..<length metadata])))"

text \<open>The sanity check of the dimensions across ranks.\<close>

definition sizes_match :: "gloo_context \<Rightarrow> metadata list \<Rightarrow> bool" where
  "sizes_match ctx metadata =
     list_all (\<lambda>i. i = ctx_rank ctx \<or> md_sizes (metadata ! i) = md_sizes (metadata ! ctx_rank ctx))
       [0..<ctx_size ctx]"

text \<open>
  The global reduction: \<open>output\<close> is the tensor of rank 0's indices and values, and the
  loop adds the tensor of every other rank to it.
\<close>

fun add_ranks :: "nat \<Rightarrow> int list \<Rightarrow> scalar_type \<Rightarrow> 'v sparse_tensor
    \<Rightarrow> (int list list \<times> 'v list) list \<Rightarrow> error + 'v sparse_tensor" where
  "add_ranks sd szs dtype output [] = Inr output"
| "add_ranks sd szs dtype output ((idx, vs) # rest) =
     (case sparse_coo_tensor sd idx vs szs dtype of
        Inl e \<Rightarrow> Inl e
      | Inr t \<Rightarrow>
          (case add_sparse output t of
             Inl e \<Rightarrow> Inl e
           | Inr output' \<Rightarrow> add_ranks sd szs dtype output' rest))"

definition global_reduction ::
    "gloo_context \<Rightarrow> 'v sparse_tensor \<Rightarrow> int list list list \<Rightarrow> 'v list list
      \<Rightarrow> error + 'v sparse_tensor" where
  "global_reduction ctx input idx vs =
     (if length idx \<noteq> ctx_size ctx then Inl (C10Error ''indices.size() == context->size'')
      else if length vs \<noteq> ctx_size ctx then Inl (C10Error ''values.size() == context->size'')
      else
        (case sparse_coo_tensor (sparse_dim input) (idx ! 0) (vs ! 0) (sizes input)
                (scalar_type input) of
           Inl e \<Rightarrow> Inl e
         | Inr output \<Rightarrow>
             add_ranks (sparse_dim input) (sizes input) (scalar_type input) output
               (tl (zip idx vs))))"

text \<open>
  \<open>AsyncSparseAllreduceWork::allreduce\<close> on one rank. \<open>tensors\<close> is not empty (dispatch
  checks it). \<open>input\<close> starts as the tensor object \<open>tensors[0]\<close> itself, so the local
  reduction accumulates into that object; \<open>input.coalesce()\<close> then binds \<open>input\<close> to the
  coalesced tensor, which nothing modifies afterwards. The three peer lists are what the
  other ranks contribute to the three allgathers. The result is the returned tensor and
  the tensors of this rank after the call.
\<close>

definition AsyncSparseAllreduceWork_allreduce ::
    "gloo_context \<Rightarrow> (nat \<Rightarrow> int list) \<Rightarrow> (nat \<Rightarrow> 'v) \<Rightarrow> nat list \<Rightarrow> 'v::{plus,zero} heap
      \<Rightarrow> metadata option list \<Rightarrow> int list list option list \<Rightarrow> 'v list option list
      \<Rightarrow> error + 'v sparse_tensor \<times> 'v heap" where
  "AsyncSparseAllreduceWork_allreduce ctx junk_i junk_v tensors h peers_m peers_i peers_v =
     (case local_reduction (hd tensors) (tl tensors) h of
        Inl e \<Rightarrow> Inl e
      | Inr h1 \<Rightarrow>
          let input = coalesce (cell h1 (hd tensors))
          in (case allgather_metadata ctx input peers_m of
                Inl e \<Rightarrow> Inl e
              | Inr metadata \<Rightarrow>
                  if \<not> sizes_match ctx metadata
                  then Inl (C10Error ''Sparse dimensions do not match'')
                  else
                    (case allgather_indices ctx junk_i input metadata peers_i of
                       Inl e \<Rightarrow> Inl e
                     | Inr idx \<Rightarrow>
                         (case allgather_values ctx junk_v input metadata peers_v of
                            Inl e \<Rightarrow> Inl e
                          | Inr vs \<Rightarrow>
                              (case global_reduction ctx input idx vs of
                                 Inl e \<Rightarrow> Inl e
                               | Inr output \<Rightarrow> Inr (coalesce output, h1))))))"

text \<open>
  The work item: its copy of the input list and its \<open>outputs\<close>. \<open>run\<close> calls \<open>allreduce\<close>
  and pushes one clone of the result per input onto \<open>outputs\<close>; \<open>result\<close> returns
  \<open>outputs\<close>.
\<close>

record sparse_work =
  sw_context :: gloo_context
  sw_inputs :: "nat list"
  sw_outputs :: "nat list"
  sw_tag :: "32 word"

fun push_clones :: "'v sparse_tensor \<Rightarrow> nat list \<Rightarrow> sparse_work \<times> 'v heap \<Rightarrow> sparse_work \<times> 'v heap" where
  "push_clones output [] (w, h) = (w, h)"
| "push_clones output (i # inputs) (w, h) =
     (case clone output h of
        (a, h') \<Rightarrow> push_clones output inputs (w\<lparr>sw_outputs := sw_outputs w @ [a]\<rparr>, h'))"

definition AsyncSparseAllreduceWork_run ::
    "(nat \<Rightarrow> int list) \<Rightarrow> (nat \<Rightarrow> 'v) \<Rightarrow> sparse_work \<Rightarrow> 'v::{plus,zero} heap
      \<Rightarrow> metadata option list \<Rightarrow> int list list option list \<Rightarrow> 'v list option list
      \<Rightarrow> error + sparse_work \<times> 'v heap" where
  "AsyncSparseAllreduceWork_run junk_i junk_v w h peers_m peers_i peers_v =
     (case AsyncSparseAllreduceWork_allreduce (sw_context w) junk_i junk_v (sw_inputs w) h
             peers_m peers_i peers_v of
        Inl e \<Rightarrow> Inl e
      | Inr (output, h1) \<Rightarrow> Inr (push_clones output (sw_inputs w) (w, h1)))"

definition result :: "sparse_work \<Rightarrow> nat list" where
  "result w = sw_outputs w"

section \<open>All ranks of a sparse allreduce\<close>

text \<open>
  One rank before the collective: its tensors and the list of handles it passes. A world
  is the list of all ranks, in rank order. Every rank runs the code above, so what rank
  \<open>k\<close> contributes to an allgather is what that code computes on rank \<open>k\<close>, if it gets
  as far as the call.
\<close>

type_synonym 'v rank_state = "'v heap \<times> nat list"

definition local_input :: "'v::{plus,zero} rank_state \<Rightarrow> error + 'v sparse_tensor" where
  "local_input w =
     (case local_reduction (hd (snd w)) (tl (snd w)) (fst w) of
        Inl e \<Rightarrow> Inl e
      | Inr h1 \<Rightarrow> Inr (coalesce (cell h1 (hd (snd w)))))"

definition context_of :: "'v rank_state list \<Rightarrow> nat \<Rightarrow> gloo_context" where
  "context_of W k = \<lparr>ctx_rank = k, ctx_size = length W\<rparr>"

definition peer_metadata :: "'v::{plus,zero} rank_state list \<Rightarrow> metadata option list" where
  "peer_metadata W =
     map (\<lambda>w. case local_input w of
                Inl e \<Rightarrow> None
              | Inr input \<Rightarrow>
                  (case populate_from_sparse_tensor input (replicate SparseTensorMetadata_dim 0) of
                     Inl e \<Rightarrow> None
                   | Inr row \<Rightarrow> Some row)) W"

text \<open>
  The metadata rank \<open>k\<close> has when it comes to the allgathers of indices and values: it
  got there only if its own allgather of the metadata and its sanity check succeeded, and
  it contributes a chunk only if its \<open>narrow\<close> succeeds. An allgather completes on all
  ranks or on none, so a rank that comes to the allgather of the values has contributed
  to the one of the indices. To the allgather of the values a rank contributes only if
  \<open>GENERATE_ALL_TYPES\<close> accepts the scalar type of its tensor.
\<close>

definition checked_metadata :: "'v::{plus,zero} rank_state list \<Rightarrow> nat \<Rightarrow> (('v sparse_tensor) \<times> metadata list) option" where
  "checked_metadata W k =
     (case local_input (W ! k) of
        Inl e \<Rightarrow> None
      | Inr input \<Rightarrow>
          (case allgather_metadata (context_of W k) input (peer_metadata W) of
             Inl e \<Rightarrow> None
           | Inr metadata \<Rightarrow>
               if sizes_match (context_of W k) metadata \<and> \<not> max_nnz metadata < int (nnz input)
               then Some (input, metadata) else None))"

definition peer_indices ::
    "(nat \<Rightarrow> nat \<Rightarrow> int list) \<Rightarrow> 'v::{plus,zero} rank_state list \<Rightarrow> int list list option list" where
  "peer_indices junk_i W =
     map (\<lambda>k. case checked_metadata W k of
                None \<Rightarrow> None
              | Some (input, metadata) \<Rightarrow>
                  Some (padded (junk_i k) (indices input) (max_nnz metadata)))
       [0..<length W]"

definition peer_values ::
    "(nat \<Rightarrow> nat \<Rightarrow> 'v) \<Rightarrow> 'v::{plus,zero} rank_state list \<Rightarrow> 'v list option list" where
  "peer_values junk_v W =
     map (\<lambda>k. case checked_metadata W k of
                None \<Rightarrow> None
              | Some (input, metadata) \<Rightarrow>
                  if generate_all_types (scalar_type input)
                  then Some (padded (junk_v k) (vals input) (max_nnz metadata))
                  else None)
       [0..<length W]"

text \<open>The sparse allreduce as rank \<open>r\<close> of the world \<open>W\<close> runs it.\<close>

definition world_allreduce ::
    "(nat \<Rightarrow> nat \<Rightarrow> int list) \<Rightarrow> (nat \<Rightarrow> nat \<Rightarrow> 'v) \<Rightarrow> 'v::{plus,zero} rank_state list \<Rightarrow> nat
      \<Rightarrow> error + 'v sparse_tensor \<times> 'v heap" where
  "world_allreduce junk_i junk_v W r =
     AsyncSparseAllreduceWork_allreduce (context_of W r) (junk_i r) (junk_v r)
       (snd (W ! r)) (fst (W ! r))
       (peer_metadata W) (peer_indices junk_i W) (peer_values junk_v W)"

definition world_run ::
    "(nat \<Rightarrow> nat \<Rightarrow> int list) \<Rightarrow> (nat \<Rightarrow> nat \<Rightarrow> 'v) \<Rightarrow> 'v::{plus,zero} rank_state list \<Rightarrow> nat
      \<Rightarrow> 32 word \<Rightarrow> error + sparse_work \<times> 'v heap" where
  "world_run junk_i junk_v W r tag =
     AsyncSparseAllreduceWork_run (junk_i r) (junk_v r)
       \<lparr>sw_context = context_of W r, sw_inputs = snd (W ! r), sw_outputs = [], sw_tag = tag\<rparr>
       (fst (W ! r))
       (peer_metadata W) (peer_indices junk_i W) (peer_values junk_v W)"

section \<open>Worlds of equally shaped inputs\<close>




text \<open>
  The input values of a rank at a coordinate: the value blocks that the tensors of its
  list hold there, in the order of the list and, within a tensor, of its entries. Their
  sum is the locally pre-summed input value of the rank at the coordinate.
\<close>

definition local_entries :: "'v rank_state \<Rightarrow> int list \<Rightarrow> 'v list" where
  "local_entries w c = concat (map (\<lambda>t. entries_at (cell (fst w) t) c) (snd w))"

text \<open>
  The sum over the ranks, in rank order, of the locally pre-summed input values at a
  coordinate. A rank that holds no entry at the coordinate adds nothing, and the sum is
  zero when no rank holds one.
\<close>

definition sum_over_ranks :: "'v::{plus,zero} rank_state list \<Rightarrow> int list \<Rightarrow> 'v" where
  "sum_over_ranks W c =
     sum_in_order (map sum_in_order (filter (\<lambda>es. es \<noteq> []) (map (\<lambda>w. local_entries w c) W)))"

text \<open>
  Worlds for the examples. In \<open>example_world\<close>, rank 0 passes two tensors of shape
  \<open>[4, 2]\<close> (both dimensions sparse) and rank 1 passes one with no entries. The one rank
  of \<open>example_world5\<close> passes a tensor with five sparse dimensions, the one rank of
  \<open>example_world_short\<close> a tensor of 16-bit integers, and the one rank of
  \<open>example_world_repeated\<close> passes its first tensor again as the third. In
  \<open>scenario_world x\<close>, four ranks pass one tensor of floats of shape \<open>[4]\<close> each, rank \<open>r\<close>
  with the one entry \<open>x\<close> at coordinate \<open>r\<close>.
\<close>

definition no_tensor :: "'v sparse_tensor" where
  "no_tensor = \<lparr>sizes = [], sparse_dim = 0, scalar_type = kLong, indices = [], vals = []\<rparr>"

definition example_world :: "int rank_state list" where
  "example_world =
     [(\<lparr>cell = (\<lambda>a. no_tensor)
          (0 := \<lparr>sizes = [4, 2], sparse_dim = 2, scalar_type = kLong,
                 indices = [[3, 1], [0, 0]], vals = [1, 2]\<rparr>,
           1 := \<lparr>sizes = [4, 2], sparse_dim = 2, scalar_type = kLong,
                 indices = [[3, 1]], vals = [10]\<rparr>),
        next_free = 2\<rparr>, [0, 1]),
      (\<lparr>cell = (\<lambda>a. no_tensor)
          (0 := \<lparr>sizes = [4, 2], sparse_dim = 2, scalar_type = kLong, indices = [], vals = []\<rparr>),
        next_free = 1\<rparr>, [0])]"


definition example_world_short :: "16 word rank_state list" where
  "example_world_short =
     [(\<lparr>cell = (\<lambda>a. no_tensor)
          (0 := \<lparr>sizes = [4], sparse_dim = 1, scalar_type = kShort, indices = [[0]], vals = [1]\<rparr>),
        next_free = 1\<rparr>, [0])]"

definition example_world_repeated :: "int rank_state list" where
  "example_world_repeated =
     [(\<lparr>cell = (\<lambda>a. no_tensor)
          (0 := \<lparr>sizes = [4], sparse_dim = 1, scalar_type = kLong, indices = [[0]], vals = [1]\<rparr>,
           1 := \<lparr>sizes = [4], sparse_dim = 1, scalar_type = kLong, indices = [[1]], vals = [1]\<rparr>),
        next_free = 2\<rparr>, [0, 1, 0])]"

definition scenario_world :: "'v \<Rightarrow> 'v rank_state list" where
  "scenario_world x =
     map (\<lambda>r. (\<lparr>cell = (\<lambda>a. no_tensor)
                  (0 := \<lparr>sizes = [4], sparse_dim = 1, scalar_type = kFloat,
                         indices = [[int r]], vals = [x]\<rparr>),
                next_free = 1\<rparr>, [0]))
       [0..<4]"

chapter \<open>ProcessGroupGloo: the properties\<close>

section \<open>RecvWork\<close>

lemma waits_snoc: "waits (os @ [outcome]) w = snd (RecvWork_wait outcome (waits os w))"
  by (simp add: waits_def)

lemma waits_Nil: "waits [] w = w"
  by (simp add: waits_def)

lemma srcRank_wait:
  "srcRank (snd (RecvWork_wait outcome w)) = (case outcome of Inr r \<Rightarrow> r | Inl e \<Rightarrow> srcRank w)"
  by (simp add: RecvWork_wait_def Let_def split: sum.splits)

lemma srcRank_waits:
  "srcRank (waits os w) = srcRank w \<or> Inr (srcRank (waits os w)) \<in> set os"
proof (induction os rule: rev_induct)
  case Nil
  show ?case by (simp add: waits_Nil)
next
  case (snoc outcome os)
  show ?case
  proof (cases outcome)
    case (Inl e)
    with snoc show ?thesis by (auto simp add: waits_snoc srcRank_wait)
  next
    case (Inr r)
    then show ?thesis by (simp add: waits_snoc srcRank_wait)
  qed
qed

text \<open>
  Claim C10. A \<open>RecvWork\<close> handle is created with \<open>srcRank_ = -1\<close>, and only a
  \<open>waitRecv\<close> that succeeds inside \<open>wait()\<close> writes it. So after any number of \<open>wait()\<close>
  calls in none of which the receive completed, \<open>sourceRank()\<close> is \<open>-1\<close>; after a
  \<open>wait()\<close> in which the receive completed with sender \<open>r\<close> it is \<open>r\<close>; a \<open>wait()\<close> whose
  \<open>waitRecv\<close> throws leaves it as it was; and whenever it is not \<open>-1\<close>, it is a rank that
  a \<open>waitRecv\<close> of one of the \<open>wait()\<close> calls delivered.
\<close>

theorem sourceRank_of_RecvWork:
  "((\<forall>outcome\<in>set outcomes. isl outcome) \<longrightarrow>
      sourceRank (waits outcomes (RecvWork t)) = - 1) \<and>
   sourceRank (waits (outcomes @ [Inr r]) (RecvWork t)) = r \<and>
   sourceRank (waits (outcomes @ [Inl e]) (RecvWork t)) = sourceRank (waits outcomes (RecvWork t)) \<and>
   (sourceRank (waits outcomes (RecvWork t)) \<noteq> - 1 \<longrightarrow>
      Inr (sourceRank (waits outcomes (RecvWork t))) \<in> set outcomes)"
proof -
  have init: "srcRank (RecvWork t) = - 1"
    by (simp add: RecvWork_def)
  have c: "srcRank (waits outcomes (RecvWork t)) = - 1 \<or>
      Inr (srcRank (waits outcomes (RecvWork t))) \<in> set outcomes"
    using srcRank_waits [of outcomes "RecvWork t"] by (simp only: init)
  have a: "srcRank (waits outcomes (RecvWork t)) = - 1" if "\<forall>outcome\<in>set outcomes. isl outcome"
    using c that by auto
  show ?thesis
    using a c by (auto simp add: sourceRank_def waits_snoc srcRank_wait)
qed

text \<open>Two waits that time out; a wait that times out and one that receives from rank 3.\<close>

theorem sourceRank_of_RecvWork_witness:
  "list_all isl [Inl (RuntimeError ''Timed out''), Inl (RuntimeError ''Timed out'') :: error + int] \<and>
   sourceRank (waits [Inl (RuntimeError ''Timed out''), Inl (RuntimeError ''Timed out'')]
     (RecvWork example_dense)) = - 1 \<and>
   sourceRank (waits ([Inl (RuntimeError ''Timed out'')] @ [Inr 3]) (RecvWork example_dense)) = 3 \<and>
   sourceRank (waits [Inl (RuntimeError ''Timed out''), Inr 3] (RecvWork example_dense)) \<noteq> - 1 \<and>
   (Inr 3 :: error + int) \<in> set [Inl (RuntimeError ''Timed out''), Inr 3]"
  using sourceRank_of_RecvWork [of "[Inl (RuntimeError ''Timed out''), Inl (RuntimeError ''Timed out'')]" example_dense]
    sourceRank_of_RecvWork [of "[Inl (RuntimeError ''Timed out'')]" example_dense 3]
  by simp

section \<open>Point-to-point calls\<close>

lemma set_anysource:
  "0 \<le> sz \<Longrightarrow> anysource_srcRanks sz = Inr rs \<Longrightarrow> set rs = {0..<sz}"
  by (auto simp add: anysource_srcRanks_def)

text \<open>
  Claim C3. A \<open>recvAnysource\<close> call with an accepted tensor and tag, in a group of size
  \<open>size_\<close>, returns a handle after exactly two calls into the transport: it creates the
  unbound buffer and calls \<open>recv(srcRanks, tag)\<close> with a list whose set of entries is
  \<open>{0, ..., size_ - 1}\<close>: every rank of the group is in the list and nothing else is.
\<close>

theorem recvAnysource_source_ranks:
  assumes "checkSingleTensor tensors = Inr t" and "0 \<le> sint tag" and "0 \<le> pg_size pg"
  shows "\<exists>w srcRanks.
           recvAnysource pg tensors tag =
             (Inr w, pg\<lparr>transport := transport pg @
                 [CreateUnboundBuffer (getContext pg tag) (t_data_ptr t) (numel t * element_size t),
                  BufferRecvAny srcRanks tag]\<rparr>) \<and>
           set srcRanks = {0..<pg_size pg}"
proof -
  obtain rs where rs: "anysource_srcRanks (pg_size pg) = Inr rs"
    using assms(3) by (simp add: anysource_srcRanks_def)
  have "set rs = {0..<pg_size pg}"
    using assms(3) rs by (rule set_anysource)
  moreover have "recvAnysource pg tensors tag =
      (Inr (RecvWork t), pg\<lparr>transport := transport pg @
         [CreateUnboundBuffer (getContext pg tag) (t_data_ptr t) (numel t * element_size t),
          BufferRecvAny rs tag]\<rparr>)"
    using assms(1,2) rs by (simp add: recvAnysource_def checkTag_def Let_def)
  ultimately show ?thesis by blast
qed

text \<open>
  As a list, \<open>srcRanks\<close> has \<open>2 * size_\<close> entries: the zeros of \<open>resize\<close> come first.
\<close>

lemma anysource_list: "anysource_srcRanks 4 = Inr [0, 0, 0, 0, 0, 1, 2, 3]"
  by (simp add: anysource_srcRanks_def upto.simps numeral_eq_Suc)

theorem recvAnysource_source_ranks_witness:
  "\<exists>w srcRanks.
     recvAnysource example_group [example_dense] 7 =
       (Inr w, example_group\<lparr>transport := [CreateUnboundBuffer 0 4096 32, BufferRecvAny srcRanks 7]\<rparr>) \<and>
     set srcRanks = {0..<4}"
proof -
  have "checkSingleTensor [example_dense] = Inr example_dense"
    by (simp add: checkSingleTensor_def example_dense_def is_sparse_def)
  moreover have "0 \<le> sint (7 :: 32 word)" by simp
  moreover have "0 \<le> pg_size example_group" by (simp add: example_group_def)
  ultimately show ?thesis
    using recvAnysource_source_ranks [of "[example_dense]" example_dense 7 example_group]
    by (simp add: example_group_def example_dense_def getContext_def numel_def element_size_def)
qed


lemma checkSingleTensor_error:
  "checkSingleTensor tensors = Inl e \<Longrightarrow> \<exists>m. e = RuntimeError m"
  by (auto simp add: checkSingleTensor_def Let_def split: if_splits)

text \<open>
  Claim C4, as the code has it. A \<open>send\<close>, \<open>recv\<close> or \<open>recvAnysource\<close> with a negative
  tag fails with a \<open>std::runtime_error\<close> (the one of \<open>checkTag\<close>, or the one of
  \<open>checkSingleTensor\<close> when the tensor list is refused first), and the process group is
  as before the call: nothing was asked of the transport.
\<close>

theorem negative_tag_fails:
  assumes "sint tag < 0"
  shows "(\<exists>m. send pg tensors dstRank tag = (Inl (RuntimeError m), pg)) \<and>
         (\<exists>m. recv pg tensors src tag = (Inl (RuntimeError m), pg)) \<and>
         (\<exists>m. recvAnysource pg tensors tag = (Inl (RuntimeError m), pg))"
proof (cases "checkSingleTensor tensors")
  case (Inl e)
  then obtain m where "e = RuntimeError m"
    using checkSingleTensor_error by blast
  with Inl show ?thesis
    by (simp add: send_def recv_def recvAnysource_def)
next
  case (Inr t)
  with assms show ?thesis
    by (simp add: send_def recv_def recvAnysource_def checkTag_def)
qed

theorem negative_tag_fails_witness:
  "sint (- 1 :: 32 word) < 0 \<and>
   send example_group [example_dense] 1 (- 1) = (Inl (RuntimeError ''Tag must be >= 0''), example_group) \<and>
   recv example_group [example_dense] 1 (- 1) = (Inl (RuntimeError ''Tag must be >= 0''), example_group) \<and>
   recvAnysource example_group [example_dense] (- 1) = (Inl (RuntimeError ''Tag must be >= 0''), example_group)"
proof -
  have n: "sint (- 1 :: 32 word) < 0" by simp
  have c: "checkSingleTensor [example_dense] = Inr example_dense"
    by (simp add: checkSingleTensor_def example_dense_def is_sparse_def)
  from negative_tag_fails [OF n, of example_group "[example_dense]" 1 1] n c show ?thesis
    by (simp add: send_def recv_def recvAnysource_def checkTag_def)
qed

text \<open>
  The claim as stated asks for an invalid-argument error. \<open>checkTag\<close> throws
  \<open>std::runtime_error\<close>, which is not a \<open>std::invalid_argument\<close>.
\<close>

theorem negative_tag_not_invalid_argument:
  "\<not> (\<exists>m. fst (send example_group [example_dense] 1 (- 1)) = Inl (InvalidArgument m))"
proof -
  have c: "checkSingleTensor [example_dense] = Inr example_dense"
    by (simp add: checkSingleTensor_def example_dense_def is_sparse_def)
  show ?thesis
    by (simp add: send_def c checkTag_def)
qed

section \<open>Validation and the tag counter\<close>

text \<open>
  Claim C5. \<open>ProcessGroupGloo::allreduce\<close> on one CPU tensor whose layout is neither
  strided nor sparse passes every check that stands before \<open>nextTag()\<close>, takes a tag, and
  only then reaches \<open>invalidArgument("unsupported layout")\<close>: the call fails with
  \<open>std::invalid_argument\<close> and the counter of the group has advanced by one, with and
  without \<open>USE_CUDA\<close>.
\<close>

theorem allreduce_unsupported_layout_advances_counter:
  "ProcessGroupGloo_allreduce use_cuda pg [example_mkldnn] ReduceOp_SUM =
     (Inl (InvalidArgument ''ProcessGroupGloo::allreduce: unsupported layout''),
      pg\<lparr>collectiveCounter := collectiveCounter pg + 1\<rparr>)"
  by (simp add: ProcessGroupGloo_allreduce_def ProcessGroupGloo_allreduce_checks_def
      example_mkldnn_def assertNonEmpty_def
      assertLayoutMatch_def assertTypeAndSizesMatch_def assertTypeAndSizesMatchWith_def
      device_supported_def nextTag_def)

text \<open>
  The other dispatch functions, and \<open>allreduce\<close> on a strided or sparse list, leave the
  group as it was whenever they fail with \<open>std::invalid_argument\<close>:
  \<open>allreduce_coalesced\<close> checks the layout before \<open>nextTag()\<close>, as its comment says.
\<close>

lemma first_failure_None: "first_failure checks = None \<longleftrightarrow> (\<forall>c\<in>set checks. c = None)"
  by (induction checks rule: first_failure.induct) auto

lemma broadcast_failure:
  "fst (broadcast use_cuda pg inputs rootRank rootTensor) = Inl (InvalidArgument m) \<Longrightarrow>
     snd (broadcast use_cuda pg inputs rootRank rootTensor) = pg"
  by (auto simp add: broadcast_def nextTag_def Let_def split: option.splits if_splits)

lemma allreduce_coalesced_failure:
  assumes "fst (allreduce_coalesced pg tensors reduceOp) = Inl (InvalidArgument m)"
  shows "snd (allreduce_coalesced pg tensors reduceOp) = pg"
proof (cases "allreduce_coalesced_checks pg tensors reduceOp")
  case None
  then have "t_device (hd tensors) = kCPU" "t_layout (hd tensors) = kStrided"
    by (auto simp add: allreduce_coalesced_checks_def first_failure_None split: if_splits)
  with None assms show ?thesis
    by (simp add: allreduce_coalesced_def nextTag_def Let_def)
next
  case (Some msg)
  then show ?thesis by (simp add: allreduce_coalesced_def)
qed

lemma reduce_failure:
  "fst (reduce use_cuda pg inputs rootRank rootTensor reduceOp) = Inl (InvalidArgument m) \<Longrightarrow>
     snd (reduce use_cuda pg inputs rootRank rootTensor reduceOp) = pg"
  by (auto simp add: reduce_def nextTag_def Let_def split: option.splits if_splits)

lemma allgather_failure:
  "fst (allgather use_cuda sd pg outputs inputs) = Inl (InvalidArgument m) \<Longrightarrow>
     snd (allgather use_cuda sd pg outputs inputs) = pg"
  by (auto simp add: allgather_def nextTag_def Let_def split: option.splits if_splits)

lemma gather_failure:
  "fst (gather use_cuda sd pg outputs inputs rootRank) = Inl (InvalidArgument m) \<Longrightarrow>
     snd (gather use_cuda sd pg outputs inputs rootRank) = pg"
  by (auto simp add: gather_def nextTag_def Let_def split: option.splits if_splits)

lemma scatter_failure:
  "fst (scatter use_cuda sd pg outputs inputs rootRank) = Inl (InvalidArgument m) \<Longrightarrow>
     snd (scatter use_cuda sd pg outputs inputs rootRank) = pg"
  by (auto simp add: scatter_def nextTag_def Let_def split: option.splits if_splits)

text \<open>
  With \<open>USE_CUDA\<close>, the constructors of the CUDA work items of allgather, gather and
  scatter refuse nested lists on more than one device, also after \<open>nextTag()\<close>; they
  throw \<open>std::runtime_error\<close>.
\<close>

lemma allgather_nested_devices:
  assumes "allgather_checks True False pg outputs inputs = None"
    and "t_device (hd inputs) = kCUDA"
  shows "allgather True False pg outputs inputs =
           (Inl (RuntimeError
              ''tensors in the nested tensor vectors need to be on the same device''),
            pg\<lparr>collectiveCounter := collectiveCounter pg + 1\<rparr>)"
  using assms by (simp add: allgather_def nextTag_def)

lemma allreduce_failure:
  "fst (ProcessGroupGloo_allreduce use_cuda pg inputs reduceOp) = Inl (InvalidArgument m) \<Longrightarrow>
   t_layout (hd inputs) = kStrided \<or> t_layout (hd inputs) = kSparse \<Longrightarrow>
     snd (ProcessGroupGloo_allreduce use_cuda pg inputs reduceOp) = pg"
  by (auto simp add: ProcessGroupGloo_allreduce_def nextTag_def Let_def split: option.splits if_splits)

section \<open>Tags of enqueued work\<close>

lemma tags_enqueue: "tags (enqueue (new_work k c t) pg) = tags pg @ [t]"
  by (simp add: tags_def enqueue_def new_work_def)

lemma counter_enqueue: "collectiveCounter (enqueue w pg) = collectiveCounter pg"
  by (simp add: enqueue_def)

lemma tags_counter_upd: "tags (pg\<lparr>collectiveCounter := c\<rparr>) = tags pg"
  by (simp add: tags_def)

lemmas eff = step_effect_def nextTag_def Let_def tags_enqueue counter_enqueue tags_counter_upd

lemma broadcast_effect: "step_effect pg (snd (broadcast u pg i r t))"
  by (simp add: broadcast_def eff split: option.splits)

lemma allreduce_effect: "step_effect pg (snd (ProcessGroupGloo_allreduce u pg i r))"
  by (simp add: ProcessGroupGloo_allreduce_def eff split: option.splits)

lemma allreduce_coalesced_effect: "step_effect pg (snd (allreduce_coalesced pg i r))"
  by (simp add: allreduce_coalesced_def eff split: option.splits)

lemma reduce_effect: "step_effect pg (snd (reduce u pg i r t op))"
  by (simp add: reduce_def eff split: option.splits)

lemma allgather_effect: "step_effect pg (snd (allgather u sd pg out i))"
  by (simp add: allgather_def eff split: option.splits)

lemma gather_effect: "step_effect pg (snd (gather u sd pg out i r))"
  by (simp add: gather_def eff split: option.splits)

lemma scatter_effect: "step_effect pg (snd (scatter u sd pg out i r))"
  by (simp add: scatter_def eff split: option.splits)

lemma barrier_effect: "step_effect pg (snd (barrier pg))"
  by (simp add: barrier_def eff)

lemma dispatch_effect: "step_effect pg (snd (dispatch u c pg))"
  by (cases c)
    (simp_all add: broadcast_effect allreduce_effect allreduce_coalesced_effect reduce_effect
      allgather_effect gather_effect scatter_effect barrier_effect)

lemma issued_step:
  assumes "issued c0 m pg" and "step_effect pg pg'"
  shows "issued c0 m pg' \<or> issued c0 (Suc m) pg'"
proof -
  from assms(1) obtain js where c: "collectiveCounter pg = c0 + of_nat m"
    and js: "tags pg = map (\<lambda>j. c0 + of_nat j) js" "sorted_wrt (<) js" "\<forall>j\<in>set js. j < m"
    by (auto simp add: issued_def)
  from assms(2) consider
      "collectiveCounter pg' = collectiveCounter pg" "tags pg' = tags pg"
    | "collectiveCounter pg' = collectiveCounter pg + 1" "tags pg' = tags pg"
    | "collectiveCounter pg' = collectiveCounter pg + 1" "tags pg' = tags pg @ [collectiveCounter pg]"
    by (auto simp add: step_effect_def)
  then show ?thesis
  proof cases
    case 1
    with c js have "issued c0 m pg'" by (auto simp add: issued_def)
    then show ?thesis ..
  next
    case 2
    have "\<forall>j\<in>set js. j < Suc m" using js(3) by auto
    with 2 c js(1,2) have "issued c0 (Suc m) pg'"
      by (auto simp add: issued_def)
    then show ?thesis ..
  next
    case 3
    have "tags pg' = map (\<lambda>j. c0 + of_nat j) (js @ [m])"
      using 3 c js(1) by simp
    moreover have "sorted_wrt (<) (js @ [m])"
      using js(2,3) by (simp add: sorted_wrt_append)
    moreover have "\<forall>j\<in>set (js @ [m]). j < Suc m"
      using js(3) by auto
    ultimately have "issued c0 (Suc m) pg'"
      using 3(1) c unfolding issued_def by (intro conjI exI [of _ "js @ [m]"]) simp_all
    then show ?thesis ..
  qed
qed

lemma run_calls_Cons: "run_calls u (c # cs) pg = run_calls u cs (snd (dispatch u c pg))"
  by (simp add: run_calls_def)

lemma issued_run:
  "issued c0 m pg \<Longrightarrow> \<exists>m'. m' \<le> m + length cs \<and> issued c0 m' (run_calls u cs pg)"
proof (induction cs arbitrary: m pg)
  case Nil
  then show ?case by (auto simp add: run_calls_def)
next
  case (Cons c cs)
  from issued_step [OF Cons.prems dispatch_effect [of pg u c]]
  obtain m1 where m1: "m1 \<le> Suc m" "issued c0 m1 (snd (dispatch u c pg))"
    by (metis le_SucI order_refl)
  from Cons.IH [OF m1(2)] obtain m' where
    "m' \<le> m1 + length cs" "issued c0 m' (run_calls u cs (snd (dispatch u c pg)))"
    by blast
  with m1(1) show ?case
    by (auto simp add: run_calls_Cons intro!: exI [of _ m'])
qed

lemma inj_on_tag: "inj_on (\<lambda>j. c0 + (of_nat j :: 32 word)) {..<2 ^ 32}"
proof (rule inj_onI)
  fix x y :: nat
  assume "x \<in> {..<2 ^ 32}" "y \<in> {..<2 ^ 32}" "c0 + (of_nat x :: 32 word) = c0 + of_nat y"
  then have "x < 2 ^ 32" "y < 2 ^ 32" "(of_nat x :: 32 word) = of_nat y" by simp_all
  then have "unat (of_nat x :: 32 word) = unat (of_nat y :: 32 word)" by simp
  with \<open>x < 2 ^ 32\<close> \<open>y < 2 ^ 32\<close> show "x = y"
    by (simp add: unat_of_nat)
qed

lemma issued_distinct:
  assumes "issued c0 m pg" and "m \<le> 2 ^ 32"
  shows "distinct (tags pg)"
proof -
  from assms(1) obtain js where
    js: "tags pg = map (\<lambda>j. c0 + of_nat j) js" "sorted_wrt (<) js" "\<forall>j\<in>set js. j < m"
    by (auto simp add: issued_def)
  have "distinct js" using js(2) by (simp add: strict_sorted_iff)
  moreover have "set js \<subseteq> {..<2 ^ 32}" using js(3) assms(2) by auto
  then have "inj_on (\<lambda>j. c0 + (of_nat j :: 32 word)) (set js)"
    by (rule inj_on_subset [OF inj_on_tag])
  ultimately show ?thesis
    by (simp add: js(1) distinct_map)
qed

text \<open>
  Claim C6, as the code has it. On a group with an empty queue, after any sequence of at
  most \<open>2 ^ 32\<close> dispatch calls (collectives and barriers, failing ones included) the tags
  of the enqueued work items are pairwise distinct: \<open>nextTag\<close> hands out the 32-bit
  counter and increments it.
\<close>

theorem tags_distinct_below_wraparound:
  assumes "workQueue pg = []" and "length calls \<le> 2 ^ 32"
  shows "distinct (map work_tag (workQueue (run_calls use_cuda calls pg)))"
proof -
  have "issued (collectiveCounter pg) 0 pg"
    using assms(1) by (simp add: issued_def tags_def)
  from issued_run [OF this, of calls use_cuda] obtain m where
    "m \<le> length calls" "issued (collectiveCounter pg) m (run_calls use_cuda calls pg)"
    by auto
  with assms(2) have "distinct (tags (run_calls use_cuda calls pg))"
    using issued_distinct by (meson order_trans)
  then show ?thesis by (simp add: tags_def)
qed

lemma barrier_run:
  "tags (run_calls u (replicate n Barrier) pg) =
     tags pg @ map (\<lambda>j. collectiveCounter pg + of_nat j) [0..<n]"
proof (induction n arbitrary: pg)
  case 0
  show ?case by (simp add: run_calls_def)
next
  case (Suc n)
  have b: "tags (snd (barrier pg)) = tags pg @ [collectiveCounter pg]"
    "collectiveCounter (snd (barrier pg)) = collectiveCounter pg + 1"
    by (simp_all add: barrier_def eff)
  have "map (\<lambda>j. collectiveCounter pg + of_nat j) [0..<Suc n] =
      collectiveCounter pg # map (\<lambda>j. collectiveCounter pg + 1 + of_nat j) [0..<n]"
    by (simp add: upt_conv_Cons map_Suc_upt [symmetric] add.assoc del: upt_Suc)
  then show ?case
    by (simp add: run_calls_Cons Suc.IH b del: upt_Suc)
qed

text \<open>
  The claim as stated, for every pair of work items of a group's lifetime, fails when the
  counter wraps around: of \<open>2 ^ 32 + 1\<close> barriers the first and the last have tag \<open>0\<close>.
\<close>

theorem tags_repeat_after_wraparound:
  "\<not> distinct (map work_tag (workQueue
       (run_calls False (replicate (2 ^ 32 + 1) Barrier) example_group)))"
proof
  assume "distinct (map work_tag (workQueue
       (run_calls False (replicate (2 ^ 32 + 1) Barrier) example_group)))"
  then have "distinct (map (\<lambda>j. (of_nat j :: 32 word)) [0..<2 ^ 32 + 1])"
    using barrier_run [of False "2 ^ 32 + 1" example_group]
    by (simp add: tags_def example_group_def)
  then have "inj_on (\<lambda>j. (of_nat j :: 32 word)) {0..<2 ^ 32 + 1}"
    by (simp add: distinct_map)
  moreover have "(of_nat 0 :: 32 word) = of_nat (2 ^ 32)" by simp
  ultimately have "(0::nat) = 2 ^ 32"
    by (rule inj_onD) simp_all
  then show False by simp
qed

text \<open>
  Four calls on \<open>example_group\<close>; the third fails after taking tag \<open>2\<close>.
\<close>

theorem tags_distinct_below_wraparound_witness:
  "distinct (map work_tag (workQueue
     (run_calls False [Barrier, Allreduce [example_dense] ReduceOp_SUM, Allreduce [example_mkldnn] ReduceOp_SUM, Barrier] example_group)))
   \<and> map work_tag (workQueue
     (run_calls False [Barrier, Allreduce [example_dense] ReduceOp_SUM, Allreduce [example_mkldnn] ReduceOp_SUM, Barrier] example_group)) = [0, 1, 3]"
proof -
  have "workQueue example_group = []" by (simp add: example_group_def)
  moreover have "length [Barrier, Allreduce [example_dense] ReduceOp_SUM, Allreduce [example_mkldnn] ReduceOp_SUM, Barrier] \<le> 2 ^ 32"
    by simp
  ultimately have "distinct (map work_tag (workQueue
     (run_calls False [Barrier, Allreduce [example_dense] ReduceOp_SUM, Allreduce [example_mkldnn] ReduceOp_SUM, Barrier] example_group)))"
    by (rule tags_distinct_below_wraparound)
  moreover have "map work_tag (workQueue
     (run_calls False [Barrier, Allreduce [example_dense] ReduceOp_SUM, Allreduce [example_mkldnn] ReduceOp_SUM, Barrier] example_group)) = [0, 1, 3]"
    by (simp add: run_calls_def barrier_def ProcessGroupGloo_allreduce_def
      ProcessGroupGloo_allreduce_checks_def example_mkldnn_def example_dense_def example_group_def
      assertNonEmpty_def assertLayoutMatch_def assertTypeAndSizesMatch_def
      assertTypeAndSizesMatchWith_def device_supported_def nextTag_def enqueue_def new_work_def
      Let_def)
  ultimately show ?thesis by simp
qed

section \<open>Dense allreduce\<close>




section \<open>Destruction of the process group\<close>

lemma set_update_covers: "i < length xs \<Longrightarrow> y \<in> set xs \<Longrightarrow> y = xs ! i \<or> y \<in> set (xs[i := x])"
  by (metis in_set_conv_nth length_list_update nth_list_update_neq)

lemma in_execution_new: "i < length ws \<Longrightarrow> Executing w \<in> set (ws[i := Executing w])"
  by (simp add: set_update_memI)

lemma fire_invariant:
  assumes "pool_invariant s" and "fire e s = Some s'"
  shows "pool_invariant s'"
proof (cases e)
  case (Enqueue w)
  with assms show ?thesis
    by (auto simp add: pool_invariant_def enqueue_def in_execution_def split: if_splits)
next
  case (TakeWork i)
  with assms(2) obtain w q where
    i: "i < length (workers s)" "workers s ! i = AtLoopHead" "\<not> stop (the_group s)"
    and q: "workQueue (the_group s) = w # q"
    and s': "s' = s\<lparr>the_group := (the_group s)\<lparr>workQueue := q,
                        workInProgress := (workInProgress (the_group s))[i := Some w]\<rparr>,
                     workers := (workers s)[i := Executing w]\<rparr>"
    by (auto split: if_splits list.splits)
  have k: "Executing v \<in> set ((workers s)[i := Executing w])" if "Executing v \<in> set (workers s)" for v
    using that i set_update_covers [of i "workers s" "Executing v" "Executing w"] by auto
  have n: "Executing w \<in> set ((workers s)[i := Executing w])"
    using i(1) by (rule in_execution_new)
  have d: "destructor s \<noteq> Destroyed" "destructor s \<noteq> Joining"
    using assms(1) i(3) by (auto simp add: pool_invariant_def)
  show ?thesis
    using assms(1) i(3) q k n d unfolding pool_invariant_def s' in_execution_def
    by auto
next
  case (ExecuteDone i)
  with assms(2) obtain w where
    i: "i < length (workers s)" "workers s ! i = Executing w"
    and s': "s' = s\<lparr>executed := executed s @ [w], workers := (workers s)[i := Relocking]\<rparr>"
    by (auto split: if_splits worker_pc.splits)
  have k: "v = w \<or> Executing v \<in> set ((workers s)[i := Relocking])" if "Executing v \<in> set (workers s)" for v
    using that i set_update_covers [of i "workers s" "Executing v" Relocking] by auto
  have d: "destructor s \<noteq> Destroyed"
    using assms(1) i nth_mem [OF i(1)] by (auto simp add: pool_invariant_def)
  show ?thesis
    using assms(1) k d unfolding pool_invariant_def s' in_execution_def
    by auto
next
  case (Relock i)
  with assms(2) have
    i: "i < length (workers s)" "workers s ! i = Relocking"
    and s': "s' = s\<lparr>the_group := (the_group s)\<lparr>workInProgress := (workInProgress (the_group s))[i := None]\<rparr>,
                workers := (workers s)[i := AtLoopHead]\<rparr>"
    by (auto split: if_splits)
  have k: "Executing v \<in> set ((workers s)[i := AtLoopHead])" if "Executing v \<in> set (workers s)" for v
    using that i set_update_covers [of i "workers s" "Executing v" AtLoopHead] by auto
  have d: "destructor s \<noteq> Destroyed"
    using assms(1) i nth_mem [OF i(1)] by (auto simp add: pool_invariant_def)
  show ?thesis
    using assms(1) k d unfolding pool_invariant_def s' in_execution_def
    by auto
next
  case (ExitLoop i)
  with assms(2) have
    i: "i < length (workers s)" "workers s ! i = AtLoopHead"
    and s': "s' = s\<lparr>workers := (workers s)[i := Exited]\<rparr>"
    by (auto split: if_splits)
  have k: "Executing v \<in> set ((workers s)[i := Exited])" if "Executing v \<in> set (workers s)" for v
    using that i set_update_covers [of i "workers s" "Executing v" Exited] by auto
  have u: "set ((workers s)[i := Exited]) \<subseteq> insert Exited (set (workers s))"
    by (rule set_update_subset_insert)
  show ?thesis
    using assms(1) k u unfolding pool_invariant_def s' in_execution_def
    by auto
next
  case DestructorStart
  with assms show ?thesis
    by (auto simp add: pool_invariant_def in_execution_def split: if_splits)
next
  case DestructorStop
  with assms show ?thesis
    by (auto simp add: pool_invariant_def in_execution_def split: if_splits)
next
  case DestructorJoined
  with assms show ?thesis
    by (auto simp add: pool_invariant_def in_execution_def list_all_iff split: if_splits)
qed

lemma run_invariant:
  "pool_invariant s \<Longrightarrow> run_events es s = Some s' \<Longrightarrow> pool_invariant s'"
proof (induction es arbitrary: s)
  case Nil
  then show ?case by simp
next
  case (Cons e es)
  from Cons.prems(2) obtain s1 where "fire e s = Some s1" "run_events es s1 = Some s'"
    by (auto split: option.splits)
  with Cons.IH fire_invariant [OF Cons.prems(1)] show ?case by blast
qed

lemma initial_invariant:
  "ProcessGroupGloo rank sz devices threads = Inr pg \<Longrightarrow> pool_invariant (initial_system pg)"
  by (auto simp add: ProcessGroupGloo_def pool_invariant_def initial_system_def split: if_splits)

lemma stop_only_by_destructor:
  "fire e s = Some s' \<Longrightarrow> \<not> stop (the_group s) \<Longrightarrow> stop (the_group s') \<Longrightarrow>
     e = DestructorStop \<and> workQueue (the_group s) = []"
  by (cases e) (auto simp add: enqueue_def split: if_splits list.splits worker_pc.splits)

text \<open>
  Claim C8. In every state that a new group with its workers reaches, by any interleaving
  of enqueues, worker steps and destructor steps: the stop flag goes from unset to set
  only in the destructor's step after its wait, and the queue is empty in that step; once
  the flag is set, every work item that was enqueued before the destructor started has
  been executed or is being executed by a worker; and when the destructor has joined the
  threads, every such work item has been executed.
\<close>

theorem destruction_drains_queue:
  assumes "ProcessGroupGloo rank sz devices threads = Inr pg"
    and "run_events events (initial_system pg) = Some s"
  shows "(\<forall>e s'. fire e s = Some s' \<longrightarrow> \<not> stop (the_group s) \<longrightarrow> stop (the_group s') \<longrightarrow>
            e = DestructorStop \<and> workQueue (the_group s) = []) \<and>
         (stop (the_group s) \<longrightarrow>
            set (enqueued_before s) \<subseteq> set (executed s) \<union> in_execution s) \<and>
         (destructor s = Destroyed \<longrightarrow> set (enqueued_before s) \<subseteq> set (executed s))"
proof -
  have inv: "pool_invariant s"
    using initial_invariant [OF assms(1)] assms(2) by (rule run_invariant)
  have "in_execution s = {}" if "destructor s = Destroyed"
    using inv that by (auto simp add: pool_invariant_def in_execution_def)
  with inv stop_only_by_destructor show ?thesis
    unfolding pool_invariant_def by blast
qed

text \<open>The run \<open>example_events\<close> ends with the group destroyed and the work item executed.\<close>

theorem destruction_drains_queue_witness:
  "\<exists>pg s. ProcessGroupGloo 0 4 1 2 = Inr pg \<and>
     run_events example_events (initial_system pg) = Some s \<and>
     stop (the_group s) \<and> destructor s = Destroyed \<and>
     enqueued_before s = [example_work] \<and> executed s = [example_work] \<and>
     set (enqueued_before s) \<subseteq> set (executed s)"
proof -
  define pg where "pg = \<lparr>pg_rank = 0, pg_size = 4, pg_contexts = 1, stop = False,
    collectiveCounter = 0, workQueue = [], workInProgress = [None, None], transport = []\<rparr>"
  define s where "s = \<lparr>the_group = pg\<lparr>stop := True\<rparr>, workers = [Exited, Exited],
    destructor = Destroyed, executed = [example_work], enqueued_before = [example_work]\<rparr>"
  have c: "ProcessGroupGloo 0 4 1 2 = Inr pg"
    by (simp add: ProcessGroupGloo_def pg_def numeral_2_eq_2)
  have r: "run_events example_events (initial_system pg) = Some s"
    by (simp add: example_events_def initial_system_def pg_def s_def enqueue_def)
  from destruction_drains_queue [OF c r] have "set (enqueued_before s) \<subseteq> set (executed s)"
    by (simp add: s_def)
  with c r show ?thesis
    by (intro exI [of _ pg] exI [of _ s]) (simp add: s_def pg_def)
qed

section \<open>The metadata row\<close>

lemma upt_0_4: "[0..<4] = [0, 1, 2, 3::nat]"
  by (simp add: upt_rec)

lemma upt_4_8: "[4..<8] = [4, 5, 6, 7::nat]"
  by (simp add: upt_rec)

lemma fold_slots_nth:
  assumes "j < length d"
  shows "fold (\<lambda>i d. if i < k then d[i + off := f i] else d) [0..<4] d ! j =
     (if off \<le> j \<and> j < off + 4 \<and> j - off < k then f (j - off) else d ! j)"
proof -
  have "j - off = 3" if "off \<le> j" "j < off + 4" "j \<noteq> off" "j \<noteq> Suc off" "j \<noteq> Suc (Suc off)"
    using that by arith
  then show ?thesis
    using assms by (auto simp add: upt_0_4 nth_list_update)
qed

lemma fold_slots_length:
  "length (fold (\<lambda>i d. if i < k then d[i + off := f i] else d) [0..<4] d) = length d"
  by (simp add: upt_0_4)

lemma fold_slots0_nth:
  assumes "j < length d"
  shows "fold (\<lambda>i d. if i < k then d[i := f i] else d) [0..<4] d ! j =
     (if j < 4 \<and> j < k then f j else d ! j)"
proof -
  consider "j = 0" | "j = 1" | "j = 2" | "j = 3" | "4 \<le> j"
    by arith
  then show ?thesis
    using assms by cases (auto simp add: upt_0_4 nth_list_update)
qed

lemma fold_slots0_length:
  "length (fold (\<lambda>i d. if i < k then d[i := f i] else d) [0..<4] d) = length d"
  by (simp add: upt_0_4)

lemma takeWhile_prefix:
  "(\<forall>x\<in>set xs. P x) \<Longrightarrow> ys = [] \<or> \<not> P (hd ys) \<Longrightarrow> takeWhile P (xs @ ys) = xs"
  by (cases ys) auto

lemma populate_ok:
  assumes "sparse_dim t \<le> 4" "dense_dim t \<le> 4" "length data = 9"
  shows "\<exists>r. populate_from_sparse_tensor t data = Inr r \<and> length r = 9 \<and>
     (\<forall>i<4. r ! i = (if i < sparse_dim t then size_at t i else data ! i)) \<and>
     (\<forall>i<4. r ! (i + 4) = (if i < dense_dim t then size_at t (sparse_dim t + i) else data ! (i + 4))) \<and>
     r ! 8 = int (nnz t)"
proof -
  let ?d1 = "fold (\<lambda>i d. if i < sparse_dim t then d[i := size_at t i] else d) [0..<4] data"
  let ?d2 = "fold (\<lambda>i d. if i < dense_dim t then d[i + 4 := size_at t (sparse_dim t + i)] else d) [0..<4] ?d1"
  have l1: "length ?d1 = 9" using assms(3) by (simp only: fold_slots0_length)
  have l2: "length ?d2 = 9" using l1 by (simp only: fold_slots_length)
  have p: "populate_from_sparse_tensor t data = Inr (?d2[8 := int (nnz t)])"
    using assms by (simp add: populate_from_sparse_tensor_def Let_def)
  have a: "(?d2[8 := int (nnz t)]) ! i = (if i < sparse_dim t then size_at t i else data ! i)" if "i < 4" for i
    using that l1 l2 assms(3) by (simp add: fold_slots_nth fold_slots0_nth)
  have b: "(?d2[8 := int (nnz t)]) ! (i + 4) = (if i < dense_dim t then size_at t (sparse_dim t + i) else data ! (i + 4))" if "i < 4" for i
    using that l1 l2 assms(3) by (simp add: fold_slots_nth fold_slots0_nth)
  have c: "(?d2[8 := int (nnz t)]) ! 8 = int (nnz t)" using l2 by simp
  show ?thesis using p a b c l2 by auto
qed

lemma upt_4_8_shift: "map f [4..<8] = map (\<lambda>i. f (i + 4)) [0..<4]"
  by (simp add: upt_0_4 upt_4_8)

lemma read_slots:
  assumes "k \<le> 4" "k \<le> length xs" "\<forall>x\<in>set xs. 0 < (x::int)"
    and "\<forall>i<4. g i = (if i < k then xs ! i else 0)"
  shows "takeWhile (\<lambda>x. \<not> x \<le> 0) (map g [0..<4]) = take k xs"
proof -
  have "map g [0..<4] = take k xs @ replicate (4 - k) 0"
    using assms(1,2,4) by (intro nth_equalityI) (auto simp add: nth_append)
  moreover have "\<forall>x\<in>set (take k xs). \<not> x \<le> 0"
    using assms(3) by (fastforce dest: in_set_takeD)
  moreover have "replicate (4 - k) (0::int) = [] \<or> \<not> \<not> hd (replicate (4 - k) (0::int)) \<le> 0"
    by (cases "4 - k") auto
  ultimately show ?thesis
    by (simp only: takeWhile_prefix)
qed

text \<open>
  Claim C9. For a sparse-coo tensor with at most 4 sparse and at most 4 dense dimensions,
  all sizes positive, \<open>populate_from_sparse_tensor\<close> on a 9-slot row succeeds, and reading
  the row back gives the tensor's data: \<open>sizes()\<close> is the sparse sizes followed by the
  dense sizes, and \<open>nnz()\<close> is the number of entries. The slots of dimensions the tensor
  does not have hold zero (the row is a row of the \<open>at::zeros\<close> buffer of
  \<open>allgather_metadata\<close>): \<open>populate_from_sparse_tensor\<close> leaves them as they are, and
  they end the two reading loops.
\<close>

theorem metadata_roundtrip:
  assumes "sparse_dim t \<le> 4" and "dense_dim t \<le> 4"
    and "sparse_dim t \<le> length (sizes t)"
    and "\<forall>s\<in>set (sizes t). 0 < s"
    and "length data = 9"
    and "\<forall>i<4. sparse_dim t \<le> i \<longrightarrow> data ! i = 0"
    and "\<forall>i<4. dense_dim t \<le> i \<longrightarrow> data ! (i + 4) = 0"
  shows "\<exists>r. populate_from_sparse_tensor t data = Inr r \<and>
           md_sizes r = sparse_sizes t @ dense_sizes t \<and>
           md_nnz r = int (nnz t)"
proof -
  from populate_ok [OF assms(1,2,5)] obtain r where
    r: "populate_from_sparse_tensor t data = Inr r"
    and a: "\<forall>i<4. r ! i = (if i < sparse_dim t then size_at t i else data ! i)"
    and b: "\<forall>i<4. r ! (i + 4) =
              (if i < dense_dim t then size_at t (sparse_dim t + i) else data ! (i + 4))"
    and c: "r ! 8 = int (nnz t)"
    by blast
  have a': "\<forall>i<4. r ! i = (if i < sparse_dim t then sizes t ! i else 0)"
    using a assms(6) by (auto simp add: size_at_def)
  have s: "takeWhile (\<lambda>x. \<not> x \<le> 0) (map (\<lambda>i. r ! i) [0..<4]) = sparse_sizes t"
    unfolding sparse_sizes_def by (rule read_slots [OF assms(1,3,4) a'])
  have dl: "dense_dim t \<le> length (dense_sizes t)"
    by (simp add: dense_dim_def dense_sizes_def)
  have dp: "\<forall>x\<in>set (dense_sizes t). 0 < x"
    using assms(4) by (fastforce simp add: dense_sizes_def dest: in_set_dropD)
  have b': "\<forall>i<4. r ! (i + 4) = (if i < dense_dim t then dense_sizes t ! i else 0)"
    using b assms(3,7) by (auto simp add: size_at_def dense_sizes_def dense_dim_def)
  have "takeWhile (\<lambda>x. \<not> x \<le> 0) (map (\<lambda>i. r ! (i + 4)) [0..<4]) =
          take (dense_dim t) (dense_sizes t)"
    by (rule read_slots [OF assms(2) dl dp b'])
  moreover have "take (dense_dim t) (dense_sizes t) = dense_sizes t"
    by (simp add: dense_dim_def dense_sizes_def)
  moreover have "map (\<lambda>i. r ! i) [4..<8] = map (\<lambda>i. r ! (i + 4)) [0..<4]"
    by (rule upt_4_8_shift)
  ultimately have d: "takeWhile (\<lambda>x. \<not> x \<le> 0) (map (\<lambda>i. r ! i) [4..<8]) = dense_sizes t"
    by (simp only:)
  show ?thesis
    using r s d c by (simp add: md_sizes_def md_nnz_def)
qed

text \<open>The theorem at \<open>example_tensor\<close> and a zero row.\<close>

theorem metadata_roundtrip_witness:
  "\<exists>r. populate_from_sparse_tensor example_tensor [0, 0, 0, 0, 0, 0, 0, 0, 0] = Inr r \<and>
     md_sizes r = [5, 7] @ [3] \<and> md_nnz r = 2"
proof -
  have h: "sparse_dim example_tensor \<le> 4" "dense_dim example_tensor \<le> 4" "sparse_dim example_tensor \<le> length (sizes example_tensor)"
    "\<forall>s\<in>set (sizes example_tensor). 0 < s" "length [0, 0, 0, 0, 0, 0, 0, 0, 0::int] = 9"
    by (simp_all add: example_tensor_def dense_dim_def)
  have z: "\<forall>i<4. sparse_dim example_tensor \<le> i \<longrightarrow> [0, 0, 0, 0, 0, 0, 0, 0, 0::int] ! i = 0"
    "\<forall>i<4. dense_dim example_tensor \<le> i \<longrightarrow> [0, 0, 0, 0, 0, 0, 0, 0, 0::int] ! (i + 4) = 0"
    by (simp_all add: nth_Cons' )
  from metadata_roundtrip [OF h z] show ?thesis
    by (simp add: example_tensor_def sparse_sizes_def dense_sizes_def nnz_def)
qed

text \<open>
  The zero padding is the buffer's, not the function's: on a row that holds sevens, the
  slots the loops skip are read back as sizes.
\<close>

lemma populate_keeps_unused_slots:
  "populate_from_sparse_tensor example_tensor [7, 7, 7, 7, 7, 7, 7, 7, 7] =
     Inr [5, 7, 7, 7, 3, 7, 7, 7, 2] \<and>
   md_sizes [5, 7, 7, 7, 3, 7, 7, 7, 2] = [5, 7, 7, 7, 3, 7, 7, 7]"
  by (simp add: example_tensor_def dense_dim_def nnz_def populate_from_sparse_tensor_def
      size_at_def upt_0_4 upt_4_8 md_sizes_def)

section \<open>Sparse allreduce\<close>

subsection \<open>Values of sparse tensors\<close>

lemma sum_in_order_monoid: "sum_in_order xs = (sum_list xs :: 'v::monoid_add)"
proof -
  have "foldl (+) x ys = x + sum_list ys" for x :: 'v and ys
    by (induction ys arbitrary: x) (simp_all add: add.assoc)
  then show ?thesis by (cases xs) simp_all
qed







lemma coalesce_shape [simp]:
  "sizes (coalesce t) = sizes t" "sparse_dim (coalesce t) = sparse_dim t"
  "scalar_type (coalesce t) = scalar_type t"
  by (simp_all add: coalesce_def Let_def)

lemma entries_at_append:
  "length va = length ia \<Longrightarrow>
     entries_at (t\<lparr>indices := ia @ ib, vals := va @ vb\<rparr>) c =
       entries_at (t\<lparr>indices := ia, vals := va\<rparr>) c @ entries_at (t\<lparr>indices := ib, vals := vb\<rparr>) c"
  by (simp add: entries_at_def)

lemma entries_at_fields:
  "indices a = indices b \<Longrightarrow> vals a = vals b \<Longrightarrow> entries_at a c = entries_at b c"
  by (simp add: entries_at_def)

subsection \<open>The local reduction\<close>

lemma local_reduction_frame:
  "local_reduction inp ts h = Inr h1 \<Longrightarrow>
     (\<forall>a. a \<noteq> inp \<longrightarrow> cell h1 a = cell h a) \<and> next_free h1 = next_free h"
proof (induction ts arbitrary: h)
  case Nil
  then show ?case by simp
next
  case (Cons t ts)
  from Cons.prems obtain s where
    s: "local_reduction inp ts (h\<lparr>cell := (cell h)(inp := s)\<rparr>) = Inr h1"
    by (auto split: sum.splits)
  from Cons.IH [OF s] show ?case by simp
qed



subsection \<open>Metadata of equally shaped tensors\<close>





subsection \<open>The global reduction\<close>



subsection \<open>The allgathers in a world of equal shapes\<close>





subsection \<open>The sum of the inputs\<close>

text \<open>
  Where the addition of value blocks is associative and has zero as its unit (the integer
  scalar types, which wrap around), the sum over the ranks is the plain sum, over all
  ranks and over the tensors of each rank's list, of the input values at the coordinate.
\<close>

lemma sum_list_blocks:
  "sum_list (concat xss) = (\<Sum>es\<leftarrow>xss. sum_list (es :: 'v::monoid_add list))"
  by (induction xss) simp_all

lemma sum_list_nonempty:
  "(\<Sum>es\<leftarrow>filter (\<lambda>es. es \<noteq> []) xss. sum_list es) =
     (\<Sum>es\<leftarrow>xss. sum_list (es :: 'v::monoid_add list))"
  by (induction xss) simp_all

lemma sum_over_ranks_monoid:
  fixes W :: "'v::monoid_add rank_state list"
  shows "sum_over_ranks W c = (\<Sum>w\<leftarrow>W. \<Sum>t\<leftarrow>snd w. value_at (cell (fst w) t) c)"
proof -
  have s: "(sum_in_order :: 'v list \<Rightarrow> 'v) = sum_list"
    by (rule ext) (rule sum_in_order_monoid)
  have "sum_list (local_entries w c) = (\<Sum>t\<leftarrow>snd w. value_at (cell (fst w) t) c)"
    for w :: "'v rank_state"
    by (simp add: local_entries_def sum_list_blocks value_at_def s comp_def)
  then show ?thesis
    using sum_list_nonempty [of "map (\<lambda>w. local_entries w c) W"]
    by (simp add: sum_over_ranks_def s comp_def)
qed







text \<open>
  Nor does the claim as stated name the scalar type. A tensor of 16-bit integers passes
  the checks of \<open>ProcessGroupGloo::allreduce\<close> and the allgathers of the metadata and of
  the indices, and then \<open>GENERATE_ALL_TYPES\<close> throws in \<open>allgather_values\<close>.
\<close>

lemma short_eval:
  "map_sum id fst (world_allreduce (\<lambda>k j. []) (\<lambda>k j. 0) example_world_short 0) =
     Inl (RuntimeError ''Invalid scalar type'')"
  by code_simp

text \<open>
  The local reduction adds into the tensor object \<open>tensors[0]\<close>. A rank that passes the
  list \<open>[a, b, a]\<close> therefore gets \<open>2 * (a + b)\<close> and not \<open>a + b + a\<close>: here the value
  at coordinate 1 is 2, while the three tensors of the list hold 0, 1 and 0 there.
\<close>

lemma repeated_eval:
  "map_sum id fst (world_allreduce (\<lambda>k j. []) (\<lambda>k j. 0) example_world_repeated 0) =
     Inr \<lparr>sizes = [4], sparse_dim = 1, scalar_type = kLong, indices = [[0], [1]], vals = [2, 2]\<rparr>"
  by code_simp

text \<open>
  Four ranks with tensors of floats of shape \<open>[4]\<close>, rank \<open>r\<close> holding the one entry \<open>x\<close>
  at coordinate \<open>r\<close>: every rank gets the coalesced tensor with the four entries, whatever
  the type of \<open>x\<close> and its addition are. Here it is rank 2.
\<close>

lemma scenario_eval:
  "map_sum id fst (world_allreduce (\<lambda>k j. []) (\<lambda>k j. x) (scenario_world x) 2) =
     Inr \<lparr>sizes = [4], sparse_dim = 1, scalar_type = kFloat,
          indices = [[0], [1], [2], [3]], vals = [x, x, x, x]\<rparr>"
  by (simp add: world_allreduce_def AsyncSparseAllreduceWork_allreduce_def scenario_world_def
      context_of_def peer_metadata_def peer_indices_def peer_values_def checked_metadata_def
      local_input_def allgather_metadata_def allgather_indices_def allgather_values_def
      populate_from_sparse_tensor_def gloo_allgather_def global_reduction_def
      sparse_coo_tensor_def add_sparse_def coalesce_def value_at_def entries_at_def
      sizes_match_def md_sizes_def md_nnz_def max_nnz_def padded_def nnz_def dense_dim_def
      size_at_def SparseTensorMetadata_dim_def Let_def upt_0_4 upt_4_8 upt_conv_Cons
      numeral_nat)

subsection \<open>The work item\<close>

text \<open>
  What \<open>run()\<close> does to the tensors whenever it completes: the result of \<open>allreduce\<close> is
  in as many new tensor objects as there are inputs, which make up \<open>outputs\<close>; the input
  list is as before; and of the tensor objects that existed before the call, only
  \<open>inputs[0]\<close> can hold something else than before, namely what the in-place local
  reduction of \<open>allreduce\<close> left in it.
\<close>

lemma allreduce_local_reduction:
  "AsyncSparseAllreduceWork_allreduce ctx junk_i junk_v tensors h pm pi pv = Inr (out, h1) \<Longrightarrow>
     local_reduction (hd tensors) (tl tensors) h = Inr h1"
  by (auto simp add: AsyncSparseAllreduceWork_allreduce_def Let_def split: sum.splits if_splits)

lemma push_clones_ok:
  "push_clones out ins (w, h) = (w', h') \<Longrightarrow>
     sw_outputs w' = sw_outputs w @ [next_free h..<next_free h + length ins] \<and>
     sw_inputs w' = sw_inputs w \<and>
     (\<forall>a<next_free h. cell h' a = cell h a) \<and>
     (\<forall>a. next_free h \<le> a \<and> a < next_free h + length ins \<longrightarrow> cell h' a = out)"
proof (induction ins arbitrary: w h)
  case Nil
  then show ?case by auto
next
  case (Cons i ins)
  let ?w = "w\<lparr>sw_outputs := sw_outputs w @ [next_free h]\<rparr>"
  let ?h = "h\<lparr>cell := (cell h)(next_free h := out), next_free := Suc (next_free h)\<rparr>"
  from Cons.prems have "push_clones out ins (?w, ?h) = (w', h')"
    by (simp add: clone_def)
  from Cons.IH [OF this] have
    ih: "sw_outputs w' = sw_outputs ?w @ [next_free ?h..<next_free ?h + length ins]"
      "sw_inputs w' = sw_inputs ?w"
      "\<forall>a<next_free ?h. cell h' a = cell ?h a"
      "\<forall>a. next_free ?h \<le> a \<and> a < next_free ?h + length ins \<longrightarrow> cell h' a = out"
    by blast+
  have "[next_free h..<next_free h + length (i # ins)] =
      next_free h # [Suc (next_free h)..<Suc (next_free h) + length ins]"
    by (simp add: upt_conv_Cons del: upt_Suc)
  then have "sw_outputs w' = sw_outputs w @ [next_free h..<next_free h + length (i # ins)]"
    using ih(1) by (simp del: upt_Suc)
  moreover have "\<forall>a<next_free h. cell h' a = cell h a"
    using ih(3) by simp
  moreover have "cell h' a = out" if "next_free h \<le> a" "a < next_free h + length (i # ins)" for a
  proof (cases "a = next_free h")
    case True
    then show ?thesis using ih(3) by simp
  next
    case False
    with that ih(4) show ?thesis by simp
  qed
  ultimately show ?case
    using ih(2) by simp
qed

lemma run_keeps_inputs:
  assumes "AsyncSparseAllreduceWork_run junk_i junk_v w h pm pi pv = Inr (w', h')"
  shows "\<exists>out h1.
           AsyncSparseAllreduceWork_allreduce (sw_context w) junk_i junk_v (sw_inputs w) h
             pm pi pv = Inr (out, h1) \<and>
           sw_inputs w' = sw_inputs w \<and>
           result w' = sw_outputs w @ [next_free h..<next_free h + length (sw_inputs w)] \<and>
           (\<forall>a. next_free h \<le> a \<and> a < next_free h + length (sw_inputs w) \<longrightarrow> cell h' a = out) \<and>
           (\<forall>a<next_free h. cell h' a = cell h1 a) \<and>
           (\<forall>a<next_free h. a \<noteq> hd (sw_inputs w) \<longrightarrow> cell h' a = cell h a)"
proof -
  from assms obtain out h1 where
    a: "AsyncSparseAllreduceWork_allreduce (sw_context w) junk_i junk_v (sw_inputs w) h
          pm pi pv = Inr (out, h1)"
    and c: "push_clones out (sw_inputs w) (w, h1) = (w', h')"
    by (auto simp add: AsyncSparseAllreduceWork_run_def split: sum.splits)
  from local_reduction_frame [OF allreduce_local_reduction [OF a]] have
    f: "\<forall>a. a \<noteq> hd (sw_inputs w) \<longrightarrow> cell h1 a = cell h a" "next_free h1 = next_free h"
    by simp_all
  from push_clones_ok [OF c] have
    o: "sw_outputs w' = sw_outputs w @ [next_free h..<next_free h + length (sw_inputs w)]"
      "sw_inputs w' = sw_inputs w"
      "\<forall>a<next_free h. cell h' a = cell h1 a"
      "\<forall>a. next_free h \<le> a \<and> a < next_free h + length (sw_inputs w) \<longrightarrow> cell h' a = out"
    unfolding f(2) by simp_all
  have "\<forall>a<next_free h. a \<noteq> hd (sw_inputs w) \<longrightarrow> cell h' a = cell h a"
    using o(3) f(1) by simp
  then show ?thesis
    using a o by (simp add: result_def)
qed

text \<open>
  Claim C2 says that after \<open>run()\<close> every tensor of the input list holds a clone of the
  reduced result; the comment above the loop of \<open>run()\<close> says the same (copy back to the
  input tensors). On rank 0 of \<open>example_world\<close>, \<open>allreduce\<close> returns the tensor with the
  values 2 at \<open>[0, 0]\<close> and 11 at \<open>[3, 1]\<close>. After \<open>run()\<close> the work item's inputs are
  still the tensors 0 and 1: the first holds the uncoalesced local sum of the two inputs,
  the second what it held before the call, and neither holds the result. The result is in
  the new tensors 2 and 3, which are the \<open>outputs\<close> that \<open>result()\<close> returns.
\<close>

theorem sparse_run_leaves_inputs:
  "map_sum id fst (world_allreduce (\<lambda>k j. []) (\<lambda>k j. 0) example_world 0) =
     Inr \<lparr>sizes = [4, 2], sparse_dim = 2, scalar_type = kLong,
          indices = [[0, 0], [3, 1]], vals = [2, 11]\<rparr> \<and>
   map_sum id (\<lambda>(w, h). (sw_inputs w, map (cell h) (sw_inputs w), result w, map (cell h) (result w)))
     (world_run (\<lambda>k j. []) (\<lambda>k j. 0) example_world 0 5) =
     Inr ([0, 1],
       [\<lparr>sizes = [4, 2], sparse_dim = 2, scalar_type = kLong,
          indices = [[3, 1], [0, 0], [3, 1]], vals = [1, 2, 10]\<rparr>,
        \<lparr>sizes = [4, 2], sparse_dim = 2, scalar_type = kLong, indices = [[3, 1]], vals = [10]\<rparr>],
       [2, 3],
       [\<lparr>sizes = [4, 2], sparse_dim = 2, scalar_type = kLong,
          indices = [[0, 0], [3, 1]], vals = [2, 11]\<rparr>,
        \<lparr>sizes = [4, 2], sparse_dim = 2, scalar_type = kLong,
          indices = [[0, 0], [3, 1]], vals = [2, 11]\<rparr>])"
  by code_simp

end
